theory Spec2Isabelle
  imports Complex_Main "HOL-Library.Char_ord" "HOL-Library.List_Lexorder"
begin

section \<open>JavaScript values and the host's primitives\<close>

text \<open>
  A raw query parameter as the HTTP layer hands it over: one string, or an array of strings
  when the key is repeated. A property that is not set reads as \<open>undefined\<close>, here
  \<open>None\<close>. A \<open>char\<close> stands for one code unit below 256.
\<close>

datatype qval = QStr string | QArr "string list"

type_synonym query = "string \<Rightarrow> qval option"

text \<open>
  Numbers that come out of \<open>parseFloat\<close> and of a division: the not-a-number value, the two
  infinities and the finite values by their exact value (negative zero is zero: the two compare
  equal).
\<close>

datatype number = NaN | NegInfinity | Finite rat | PosInfinity

text \<open>A \<open>Date\<close> object: its time value in milliseconds since the epoch, or an invalid date.\<close>

datatype jsdate = InvalidDate | TimeValue int

datatype error = TypeError | RangeError | StorageFailure | Failed string

text \<open>
  What the sources take from the runtime and do not define themselves: \<open>parseFloat\<close> on a
  string, \<open>Date.parse\<close> (\<open>None\<close> for not-a-number; its grammar beyond the ISO forms is
  the implementation's own), the local time zone adjustment of the language standard (offset in
  milliseconds at a time value, read as UTC when the flag is set and as local time otherwise),
  and \<open>Date.prototype.toISOString\<close> on a valid time value.
\<close>

record host =
  parseFloat :: "string \<Rightarrow> number"
  dateParse :: "string \<Rightarrow> int option"
  localTZA :: "int \<Rightarrow> bool \<Rightarrow> int"
  toISOString :: "int \<Rightarrow> string"

definition bind :: "error + 'a \<Rightarrow> ('a \<Rightarrow> error + 'b) \<Rightarrow> error + 'b" where
  "bind m f = (case m of Inl e \<Rightarrow> Inl e | Inr x \<Rightarrow> f x)"

subsection \<open>Truthiness and type tests\<close>

fun truthy :: "qval option \<Rightarrow> bool" where
  "truthy None = False"
| "truthy (Some (QStr s)) = (s \<noteq> [])"
| "truthy (Some (QArr xs)) = True"

fun typeof_string :: "qval option \<Rightarrow> bool" where
  "typeof_string (Some (QStr s)) = True"
| "typeof_string v = False"

fun isArray :: "qval option \<Rightarrow> bool" where
  "isArray (Some (QArr xs)) = True"
| "isArray v = False"

subsection \<open>Strings\<close>

text \<open>The white space and line terminator code units below 256 that \<open>trim\<close> and
  \<open>parseInt\<close> strip: TAB, LF, VT, FF, CR, SP and NBSP.\<close>

definition isWhiteSpace :: "char \<Rightarrow> bool" where
  "isWhiteSpace c = (c = CHR 0x09 \<or> c = CHR 0x0A \<or> c = CHR 0x0B \<or> c = CHR 0x0C \<or>
     c = CHR 0x0D \<or> c = CHR 0x20 \<or> c = CHR 0xA0)"

text \<open>\<open>String.prototype.trim\<close>.\<close>

definition js_trim :: "string \<Rightarrow> string" where
  "js_trim s = rev (dropWhile isWhiteSpace (rev (dropWhile isWhiteSpace s)))"

text \<open>\<open>String.prototype.split\<close> with a one-character separator: the empty string splits into
  one empty token.\<close>

fun js_split :: "char \<Rightarrow> string \<Rightarrow> string list" where
  "js_split sep [] = [[]]"
| "js_split sep (c # cs) =
     (if c = sep then [] # js_split sep cs
      else (case js_split sep cs of [] \<Rightarrow> [[c]] | t # ts \<Rightarrow> (c # t) # ts))"

text \<open>\<open>Array.prototype.join\<close> with the default separator, and the string conversion that
  \<open>parseInt\<close>, \<open>parseFloat\<close> and the \<open>Date\<close> constructor apply to their argument.\<close>

fun js_join :: "string list \<Rightarrow> string" where
  "js_join [] = []"
| "js_join [x] = x"
| "js_join (x # y # ys) = x @ CHR '','' # js_join (y # ys)"

fun toString :: "qval option \<Rightarrow> string" where
  "toString None = ''undefined''"
| "toString (Some (QStr s)) = s"
| "toString (Some (QArr xs)) = js_join xs"

text \<open>Method calls: calling a method the receiver does not have throws a \<open>TypeError\<close>.\<close>

fun call_trim :: "qval option \<Rightarrow> error + string" where
  "call_trim (Some (QStr s)) = Inr (js_trim s)"
| "call_trim v = Inl TypeError"

fun call_split :: "qval option \<Rightarrow> char \<Rightarrow> error + string list" where
  "call_split (Some (QStr s)) sep = Inr (js_split sep s)"
| "call_split v sep = Inl TypeError"

fun call_filter :: "qval option \<Rightarrow> (string \<Rightarrow> bool) \<Rightarrow> error + string list" where
  "call_filter (Some (QArr xs)) p = Inr (filter p xs)"
| "call_filter v p = Inl TypeError"

subsection \<open>Numbers\<close>

definition isDigit :: "char \<Rightarrow> bool" where
  "isDigit c = (48 \<le> (of_char c :: nat) \<and> (of_char c :: nat) \<le> 57)"

definition digitValue :: "char \<Rightarrow> int" where
  "digitValue c = int (of_char c) - 48"

definition digitsValue :: "string \<Rightarrow> int" where
  "digitsValue ds = foldl (\<lambda>acc c. 10 * acc + digitValue c) 0 ds"

text \<open>
  \<open>parseInt(v, 10)\<close>: the argument is converted to a string, leading white space and one sign
  are skipped, and the longest prefix of decimal digits is read; with no digit the result is
  not-a-number, here \<open>None\<close>. The value is the exact integer: the runtime rounds it to a
  double, which changes nothing up to \<open>2^53\<close> and preserves every comparison with 0, 1 and
  100 that the sources make.
\<close>

definition parseInt :: "qval option \<Rightarrow> int option" where
  "parseInt v =
     (let S = dropWhile isWhiteSpace (toString v);
          neg = (case S of c # r \<Rightarrow> c = CHR ''-'' | [] \<Rightarrow> False);
          S = (case S of c # r \<Rightarrow> if c = CHR ''+'' \<or> c = CHR ''-'' then r else S | [] \<Rightarrow> S);
          Z = takeWhile isDigit S
      in if Z = [] then None
         else Some ((if neg then - 1 else 1) * digitsValue Z))"

definition isNaN :: "number \<Rightarrow> bool" where
  "isNaN x = (x = NaN)"

text \<open>The comparison \<open>x <= y\<close> on numbers: false as soon as one side is not a number.\<close>

fun number_le :: "number \<Rightarrow> number \<Rightarrow> bool" where
  "number_le NaN y = False"
| "number_le x NaN = False"
| "number_le NegInfinity y = True"
| "number_le x PosInfinity = True"
| "number_le (Finite a) (Finite b) = (a \<le> b)"
| "number_le x y = False"

subsection \<open>Dates\<close>

definition msPerDay :: int where
  "msPerDay = 86400000"

text \<open>\<open>TimeClip\<close>: a time value further than 8.64e15 ms from the epoch is no date.\<close>

definition TimeClip :: "int \<Rightarrow> jsdate" where
  "TimeClip t = (if \<bar>t\<bar> > 8640000000000000 then InvalidDate else TimeValue t)"

text \<open>\<open>new Date(v)\<close> for a string or an array (which is joined into a string first).\<close>

definition newDate :: "host \<Rightarrow> qval option \<Rightarrow> jsdate" where
  "newDate h v = (case dateParse h (toString v) of None \<Rightarrow> InvalidDate | Some t \<Rightarrow> TimeClip t)"

text \<open>
  \<open>d.setHours(23, 59, 59, 999)\<close>: the time value is moved to local time, its time within the
  day is replaced, and the result is moved back to UTC and clipped.
\<close>

definition setHours_23_59_59_999 :: "host \<Rightarrow> jsdate \<Rightarrow> jsdate" where
  "setHours_23_59_59_999 h d =
     (case d of
        InvalidDate \<Rightarrow> InvalidDate
      | TimeValue t \<Rightarrow>
          (let lt = t + localTZA h t True;
               date = (lt div msPerDay) * msPerDay + (((23 * 60 + 59) * 60 + 59) * 1000 + 999);
               u = date - localTZA h date False
           in TimeClip u))"

section \<open>The stored record (the \<open>Sales\<close> model of the storage schema)\<close>

text \<open>
  One transaction as the storage client returns it: the date is a valid time value in
  milliseconds, the amounts are finite numbers.
\<close>

record Sales =
  id :: string
  date :: int
  customerId :: string
  customerName :: string
  phoneNumber :: string
  gender :: string
  age :: int
  customerRegion :: string
  customerType :: string
  productId :: string
  productName :: string
  brand :: string
  productCategory :: string
  tags :: "string list"
  quantity :: int
  pricePerUnit :: rat
  discountPercentage :: rat
  totalAmount :: rat
  finalAmount :: rat
  paymentMethod :: string
  orderStatus :: string
  deliveryType :: string
  storeId :: string
  storeLocation :: string
  salespersonId :: string
  employeeName :: string

section \<open>The request types (types/sales.type.ts)\<close>

record SalesFilters =
  customerRegion :: "string list option"
  gender :: "string list option"
  ageMin :: "int option"
  ageMax :: "int option"
  productCategory :: "string list option"
  tags :: "string list option"
  paymentMethod :: "string list option"
  orderStatus :: "string list option"
  deliveryType :: "string list option"
  brand :: "string list option"
  dateFrom :: "qval option"
  dateTo :: "qval option"
  priceMin :: "number option"
  priceMax :: "number option"

section \<open>The parameter validator (utils/validation.ts)\<close>

text \<open>
  \<open>parseArrayParam\<close>: an array keeps the items whose trimmed text is not empty, as they
  are (every item of a query array is a string); a string is split on commas, each token
  trimmed and the empty tokens dropped; anything else gives the empty list.
\<close>

definition parseArrayParam :: "qval option \<Rightarrow> error + string list" where
  "parseArrayParam param =
     (if isArray param then call_filter param (\<lambda>item. js_trim item \<noteq> [])
      else if typeof_string param then
        bind (call_split param (CHR '','')) (\<lambda>toks. Inr (filter (\<lambda>t. t \<noteq> []) (map js_trim toks)))
      else Inr [])"

definition isValidDate :: "host \<Rightarrow> qval option \<Rightarrow> bool" where
  "isValidDate h dateString = (newDate h dateString \<noteq> InvalidDate)"

text \<open>
  \<open>parseFilters\<close> starts from the empty object and runs fourteen statements in the order of
  the source, each of which sets one field of \<open>filters\<close> or leaves the object as it is.
  Each statement is one function below; \<open>parseFilters\<close> chains them.
\<close>

definition emptyFilters :: SalesFilters where
  "emptyFilters =
     \<lparr>customerRegion = None, gender = None, ageMin = None, ageMax = None,
      productCategory = None, tags = None, paymentMethod = None, orderStatus = None,
      deliveryType = None, brand = None, dateFrom = None, dateTo = None,
      priceMin = None, priceMax = None\<rparr>"

definition parse_customerRegion :: "query \<Rightarrow> SalesFilters \<Rightarrow> error + SalesFilters" where
  "parse_customerRegion query filters =
     (if truthy (query ''customerRegion'') then
        bind (parseArrayParam (query ''customerRegion'')) (\<lambda>xs. Inr (filters\<lparr>customerRegion := Some xs\<rparr>))
      else Inr filters)"

definition parse_gender :: "query \<Rightarrow> SalesFilters \<Rightarrow> error + SalesFilters" where
  "parse_gender query filters =
     (if truthy (query ''gender'') then
        bind (parseArrayParam (query ''gender'')) (\<lambda>xs. Inr (filters\<lparr>gender := Some xs\<rparr>))
      else Inr filters)"

definition parse_productCategory :: "query \<Rightarrow> SalesFilters \<Rightarrow> error + SalesFilters" where
  "parse_productCategory query filters =
     (if truthy (query ''productCategory'') then
        bind (parseArrayParam (query ''productCategory'')) (\<lambda>xs. Inr (filters\<lparr>productCategory := Some xs\<rparr>))
      else Inr filters)"

definition parse_tags :: "query \<Rightarrow> SalesFilters \<Rightarrow> error + SalesFilters" where
  "parse_tags query filters =
     (if truthy (query ''tags'') then
        bind (parseArrayParam (query ''tags'')) (\<lambda>xs. Inr (filters\<lparr>tags := Some xs\<rparr>))
      else Inr filters)"

definition parse_paymentMethod :: "query \<Rightarrow> SalesFilters \<Rightarrow> error + SalesFilters" where
  "parse_paymentMethod query filters =
     (if truthy (query ''paymentMethod'') then
        bind (parseArrayParam (query ''paymentMethod'')) (\<lambda>xs. Inr (filters\<lparr>paymentMethod := Some xs\<rparr>))
      else Inr filters)"

definition parse_orderStatus :: "query \<Rightarrow> SalesFilters \<Rightarrow> error + SalesFilters" where
  "parse_orderStatus query filters =
     (if truthy (query ''orderStatus'') then
        bind (parseArrayParam (query ''orderStatus'')) (\<lambda>xs. Inr (filters\<lparr>orderStatus := Some xs\<rparr>))
      else Inr filters)"

definition parse_deliveryType :: "query \<Rightarrow> SalesFilters \<Rightarrow> error + SalesFilters" where
  "parse_deliveryType query filters =
     (if truthy (query ''deliveryType'') then
        bind (parseArrayParam (query ''deliveryType'')) (\<lambda>xs. Inr (filters\<lparr>deliveryType := Some xs\<rparr>))
      else Inr filters)"

definition parse_brand :: "query \<Rightarrow> SalesFilters \<Rightarrow> error + SalesFilters" where
  "parse_brand query filters =
     (if truthy (query ''brand'') then
        bind (parseArrayParam (query ''brand'')) (\<lambda>xs. Inr (filters\<lparr>brand := Some xs\<rparr>))
      else Inr filters)"

definition parse_ageMin :: "query \<Rightarrow> SalesFilters \<Rightarrow> SalesFilters" where
  "parse_ageMin query filters =
     (if truthy (query ''ageMin'') then
        (case parseInt (query ''ageMin'') of
           None \<Rightarrow> filters
         | Some n \<Rightarrow> if n \<ge> 0 then filters\<lparr>ageMin := Some n\<rparr> else filters)
      else filters)"

definition parse_ageMax :: "query \<Rightarrow> SalesFilters \<Rightarrow> SalesFilters" where
  "parse_ageMax query filters =
     (if truthy (query ''ageMax'') then
        (case parseInt (query ''ageMax'') of
           None \<Rightarrow> filters
         | Some n \<Rightarrow> if n \<ge> 0 then filters\<lparr>ageMax := Some n\<rparr> else filters)
      else filters)"

definition parse_dateFrom :: "host \<Rightarrow> query \<Rightarrow> SalesFilters \<Rightarrow> SalesFilters" where
  "parse_dateFrom h query filters =
     (if truthy (query ''dateFrom'') \<and> isValidDate h (query ''dateFrom'') then
        filters\<lparr>dateFrom := query ''dateFrom''\<rparr>
      else filters)"

definition parse_dateTo :: "host \<Rightarrow> query \<Rightarrow> SalesFilters \<Rightarrow> SalesFilters" where
  "parse_dateTo h query filters =
     (if truthy (query ''dateTo'') \<and> isValidDate h (query ''dateTo'') then
        filters\<lparr>dateTo := query ''dateTo''\<rparr>
      else filters)"

definition parse_priceMin :: "host \<Rightarrow> query \<Rightarrow> SalesFilters \<Rightarrow> SalesFilters" where
  "parse_priceMin h query filters =
     (if truthy (query ''priceMin'') then
        (let x = parseFloat h (toString (query ''priceMin''))
         in if \<not> isNaN x \<and> number_le (Finite 0) x then filters\<lparr>priceMin := Some x\<rparr> else filters)
      else filters)"

definition parse_priceMax :: "host \<Rightarrow> query \<Rightarrow> SalesFilters \<Rightarrow> SalesFilters" where
  "parse_priceMax h query filters =
     (if truthy (query ''priceMax'') then
        (let x = parseFloat h (toString (query ''priceMax''))
         in if \<not> isNaN x \<and> number_le (Finite 0) x then filters\<lparr>priceMax := Some x\<rparr> else filters)
      else filters)"

definition parseFilters :: "host \<Rightarrow> query \<Rightarrow> error + SalesFilters" where
  "parseFilters h query =
     bind (parse_customerRegion query emptyFilters) (\<lambda>filters.
     bind (parse_gender query filters) (\<lambda>filters.
     bind (parse_productCategory query filters) (\<lambda>filters.
     bind (parse_tags query filters) (\<lambda>filters.
     bind (parse_paymentMethod query filters) (\<lambda>filters.
     bind (parse_orderStatus query filters) (\<lambda>filters.
     bind (parse_deliveryType query filters) (\<lambda>filters.
     bind (parse_brand query filters) (\<lambda>filters.
     Inr (parse_priceMax h query (parse_priceMin h query
           (parse_dateTo h query (parse_dateFrom h query
             (parse_ageMax query (parse_ageMin query filters))))))))))))))"

record SalesQueryParams =
  page :: "int option"
  pageSize :: "int option"
  search :: "string option"
  sort :: "string option"
  filters :: "SalesFilters option"

text \<open>
  \<open>validateQueryParams\<close>: \<open>params\<close> starts empty; page and page size fall back to 1 and 10;
  the search term is trimmed when the raw value is a non-empty string; the sort token is kept
  when it is a non-empty string; the filters are always set.
\<close>

definition validateQueryParams :: "host \<Rightarrow> query \<Rightarrow> error + SalesQueryParams" where
  "validateQueryParams h query =
     (let params = \<lparr>page = None, pageSize = None, search = None, sort = None, filters = None\<rparr>;
          params =
            (if truthy (query ''page'') then
               (case parseInt (query ''page'') of
                  None \<Rightarrow> params\<lparr>page := Some 1\<rparr>
                | Some n \<Rightarrow> if n > 0 then params\<lparr>page := Some n\<rparr> else params\<lparr>page := Some 1\<rparr>)
             else params\<lparr>page := Some 1\<rparr>);
          params =
            (if truthy (query ''pageSize'') then
               (case parseInt (query ''pageSize'') of
                  None \<Rightarrow> params\<lparr>pageSize := Some 10\<rparr>
                | Some n \<Rightarrow> if n > 0 \<and> n \<le> 100 then params\<lparr>pageSize := Some n\<rparr>
                            else params\<lparr>pageSize := Some 10\<rparr>)
             else params\<lparr>pageSize := Some 10\<rparr>)
      in bind (if truthy (query ''search'') \<and> typeof_string (query ''search'') then
                 bind (call_trim (query ''search'')) (\<lambda>s. Inr (params\<lparr>search := Some s\<rparr>))
               else Inr params) (\<lambda>params.
         let params =
               (case query ''sort'' of
                  Some (QStr s) \<Rightarrow> if s \<noteq> [] then params\<lparr>sort := Some s\<rparr> else params
                | _ \<Rightarrow> params)
         in bind (parseFilters h query) (\<lambda>fs. Inr (params\<lparr>filters := Some fs\<rparr>))))"

section \<open>The filter compiler (utils/query.ts)\<close>

text \<open>
  The predicate tree handed to the storage client. A string field is matched by a
  case-insensitive \<open>contains\<close> or by \<open>in\<close>; the tags by \<open>hasSome\<close>; age, date and final
  amount by an object with the optional keys \<open>gte\<close> and \<open>lte\<close>; \<open>Empty\<close> is the object with
  no key.
\<close>

datatype StringField =
  CustomerName | PhoneNumber | CustomerRegion | Gender | ProductCategory |
  PaymentMethod | OrderStatus | DeliveryType | Brand

datatype SalesWhereInput =
    Empty
  | Contains StringField string
  | In StringField "string list"
  | HasSome "string list"
  | Age "int option" "int option"
  | Date "jsdate option" "jsdate option"
  | FinalAmount "number option" "number option"
  | OR "SalesWhereInput list"
  | AND "SalesWhereInput list"

definition push :: "'a list \<Rightarrow> 'a \<Rightarrow> 'a list" where
  "push xs x = xs @ [x]"

text \<open>
  The array \<open>conditions\<close> as it stands when \<open>buildWhereClause\<close> reaches its final test: every
  \<open>if\<close> of the source, in order, pushes one condition or leaves the array as it is.
\<close>

definition whereConditions :: "host \<Rightarrow> string option \<Rightarrow> SalesFilters option \<Rightarrow> SalesWhereInput list" where
  "whereConditions h = (\<lambda>search filters.
     (let conditions = [];
          conditions =
            (case search of
               None \<Rightarrow> conditions
             | Some s \<Rightarrow>
                 if s \<noteq> [] \<and> js_trim s \<noteq> [] then
                   push conditions
                     (OR [Contains CustomerName (js_trim s), Contains PhoneNumber (js_trim s)])
                 else conditions)
      in case filters of
           None \<Rightarrow> conditions
         | Some fs \<Rightarrow>
         (let
          conditions =
            (case SalesFilters.customerRegion fs of
               None \<Rightarrow> conditions
             | Some vs \<Rightarrow> if length vs > 0 then push conditions (In CustomerRegion vs) else conditions);
          conditions =
            (case SalesFilters.gender fs of
               None \<Rightarrow> conditions
             | Some vs \<Rightarrow> if length vs > 0 then push conditions (In Gender vs) else conditions);
          conditions =
            (if ageMin fs \<noteq> None \<or> ageMax fs \<noteq> None then
               push conditions (Age (ageMin fs) (ageMax fs))
             else conditions);
          conditions =
            (case SalesFilters.productCategory fs of
               None \<Rightarrow> conditions
             | Some vs \<Rightarrow> if length vs > 0 then push conditions (In ProductCategory vs) else conditions);
          conditions =
            (case SalesFilters.tags fs of
               None \<Rightarrow> conditions
             | Some vs \<Rightarrow> if length vs > 0 then push conditions (HasSome vs) else conditions);
          conditions =
            (case SalesFilters.paymentMethod fs of
               None \<Rightarrow> conditions
             | Some vs \<Rightarrow> if length vs > 0 then push conditions (In PaymentMethod vs) else conditions);
          conditions =
            (case SalesFilters.orderStatus fs of
               None \<Rightarrow> conditions
             | Some vs \<Rightarrow> if length vs > 0 then push conditions (In OrderStatus vs) else conditions);
          conditions =
            (case SalesFilters.deliveryType fs of
               None \<Rightarrow> conditions
             | Some vs \<Rightarrow> if length vs > 0 then push conditions (In DeliveryType vs) else conditions);
          conditions =
            (case SalesFilters.brand fs of
               None \<Rightarrow> conditions
             | Some vs \<Rightarrow> if length vs > 0 then push conditions (In Brand vs) else conditions);
          conditions =
            (if truthy (dateFrom fs) \<or> truthy (dateTo fs) then
               push conditions
                 (Date (if truthy (dateFrom fs) then Some (newDate h (dateFrom fs)) else None)
                       (if truthy (dateTo fs)
                        then Some (setHours_23_59_59_999 h (newDate h (dateTo fs))) else None))
             else conditions);
          conditions =
            (if priceMin fs \<noteq> None \<or> priceMax fs \<noteq> None then
               push conditions (FinalAmount (priceMin fs) (priceMax fs))
             else conditions)
          in conditions)))"

definition buildWhereClause :: "host \<Rightarrow> string option \<Rightarrow> SalesFilters option \<Rightarrow> SalesWhereInput" where
  "buildWhereClause h = (\<lambda>search filters.
     (let conditions = whereConditions h search filters
      in if length conditions = 0 then Empty else AND conditions))"

section \<open>The sales service (SalesService)\<close>

datatype SortOrder = Asc | Desc

datatype OrderField = ByDate | ByQuantity | ByCustomerName

text \<open>An \<open>orderBy\<close> object has one key, the field, with its direction.\<close>

datatype OrderBy = OrderBy OrderField SortOrder

definition buildOrderBy :: "string option \<Rightarrow> OrderBy" where
  "buildOrderBy = (\<lambda>sort.
     (case sort of
        None \<Rightarrow> OrderBy ByDate Desc
      | Some s \<Rightarrow>
          if s = [] then OrderBy ByDate Desc
          else if s = ''date-newest'' then OrderBy ByDate Desc
          else if s = ''date-oldest'' then OrderBy ByDate Asc
          else if s = ''quantity-high'' then OrderBy ByQuantity Desc
          else if s = ''quantity-low'' then OrderBy ByQuantity Asc
          else if s = ''name-asc'' then OrderBy ByCustomerName Asc
          else if s = ''name-desc'' then OrderBy ByCustomerName Desc
          else OrderBy ByDate Desc))"

subsection \<open>The storage client\<close>

fun fieldValue :: "StringField \<Rightarrow> Sales \<Rightarrow> string" where
  "fieldValue CustomerName r = customerName r"
| "fieldValue PhoneNumber r = phoneNumber r"
| "fieldValue CustomerRegion r = Sales.customerRegion r"
| "fieldValue Gender r = Sales.gender r"
| "fieldValue ProductCategory r = Sales.productCategory r"
| "fieldValue PaymentMethod r = Sales.paymentMethod r"
| "fieldValue OrderStatus r = Sales.orderStatus r"
| "fieldValue DeliveryType r = Sales.deliveryType r"
| "fieldValue Brand r = Sales.brand r"

definition toLowerChar :: "char \<Rightarrow> char" where
  "toLowerChar c =
     (if 65 \<le> (of_char c :: nat) \<and> (of_char c :: nat) \<le> 90 then char_of (of_char c + (32 :: nat)) else c)"

definition toLower :: "string \<Rightarrow> string" where
  "toLower s = map toLowerChar s"

fun startsWith :: "string \<Rightarrow> string \<Rightarrow> bool" where
  "startsWith [] ys = True"
| "startsWith (x # xs) [] = False"
| "startsWith (x # xs) (y # ys) = (x = y \<and> startsWith xs ys)"

fun js_includes :: "string \<Rightarrow> string \<Rightarrow> bool" where
  "js_includes needle [] = (needle = [])"
| "js_includes needle (c # cs) = (startsWith needle (c # cs) \<or> js_includes needle cs)"

text \<open>
  Modelled from the spec: the storage client (\<open>lib/prisma\<close> and the generated client are not
  among the sources). \<open>matches\<close> is what the store makes of a predicate tree (sections 3 and
  4.2 of the spec): \<open>contains\<close> is a case-insensitive substring test, \<open>in\<close> is membership,
  \<open>hasSome\<close> holds when the record's tags share an element with the requested ones, a range
  holds when the field is within the bounds that are present (both inclusive), \<open>AND\<close> needs
  every condition, \<open>OR\<close> one of them, and the empty object matches every record. A bound that
  is an invalid date compares with no record.
\<close>

fun matches :: "SalesWhereInput \<Rightarrow> Sales \<Rightarrow> bool" where
  "matches Empty r = True"
| "matches (Contains f s) r = js_includes (toLower s) (toLower (fieldValue f r))"
| "matches (In f vs) r = (fieldValue f r \<in> set vs)"
| "matches (HasSome vs) r = list_ex (\<lambda>v. v \<in> set (Sales.tags r)) vs"
| "matches (Age lo hi) r =
     ((case lo of None \<Rightarrow> True | Some a \<Rightarrow> a \<le> age r) \<and>
      (case hi of None \<Rightarrow> True | Some b \<Rightarrow> age r \<le> b))"
| "matches (Date lo hi) r =
     ((case lo of None \<Rightarrow> True | Some InvalidDate \<Rightarrow> False | Some (TimeValue t) \<Rightarrow> t \<le> date r) \<and>
      (case hi of None \<Rightarrow> True | Some InvalidDate \<Rightarrow> False | Some (TimeValue t) \<Rightarrow> date r \<le> t))"
| "matches (FinalAmount lo hi) r =
     ((case lo of None \<Rightarrow> True | Some a \<Rightarrow> number_le a (Finite (finalAmount r))) \<and>
      (case hi of None \<Rightarrow> True | Some b \<Rightarrow> number_le (Finite (finalAmount r)) b))"
| "matches (OR ws) r = list_ex (\<lambda>w. matches w r) ws"
| "matches (AND ws) r = list_all (\<lambda>w. matches w r) ws"

text \<open>
  Modelled from the spec (section 4.3, 4.4): the records that match, in the order of the sort
  directive (ties in the store's own order, here the order of the collection for an ascending
  sort), and the page window: \<open>skip\<close> records are passed over and at most \<open>take\<close> returned. The
  spec gives the window for a non-negative offset and page size only; outside of it the model
  reports a storage failure. The store is taken to be reachable: a read fails for no other
  reason.
\<close>

definition orderRecords :: "OrderBy \<Rightarrow> Sales list \<Rightarrow> Sales list" where
  "orderRecords ob rs =
     (case ob of
        OrderBy ByDate Asc \<Rightarrow> sort_key date rs
      | OrderBy ByDate Desc \<Rightarrow> rev (sort_key date rs)
      | OrderBy ByQuantity Asc \<Rightarrow> sort_key quantity rs
      | OrderBy ByQuantity Desc \<Rightarrow> rev (sort_key quantity rs)
      | OrderBy ByCustomerName Asc \<Rightarrow> sort_key customerName rs
      | OrderBy ByCustomerName Desc \<Rightarrow> rev (sort_key customerName rs))"

definition findMany :: "Sales list \<Rightarrow> SalesWhereInput \<Rightarrow> OrderBy \<Rightarrow> int \<Rightarrow> int \<Rightarrow> error + Sales list" where
  "findMany db w ob skip tk =
     (if skip < 0 \<or> tk < 0 then Inl StorageFailure
      else Inr (take (nat tk) (drop (nat skip) (orderRecords ob (filter (matches w) db)))))"

definition count :: "Sales list \<Rightarrow> SalesWhereInput \<Rightarrow> error + int" where
  "count db w = Inr (int (length (filter (matches w) db)))"

subsection \<open>getSales\<close>

datatype jsvalue = VUndefined | VString string | VInt int | VNumber rat | VStrings "string list"

type_synonym row = "(string \<times> jsvalue) list"

text \<open>The object literal that renames the fields of one record for the client.\<close>

definition mapRecord :: "host \<Rightarrow> Sales \<Rightarrow> row" where
  "mapRecord h record =
     [(''Transaction ID'', VString (id record)),
      (''Date'', (case js_split (CHR ''T'') (toISOString h (date record)) of
                    [] \<Rightarrow> VUndefined | d # rest \<Rightarrow> VString d)),
      (''Customer ID'', VString (customerId record)),
      (''Customer Name'', VString (customerName record)),
      (''Phone Number'', VString (phoneNumber record)),
      (''Gender'', VString (Sales.gender record)),
      (''Age'', VInt (age record)),
      (''Customer Region'', VString (Sales.customerRegion record)),
      (''Customer Type'', VString (customerType record)),
      (''Product ID'', VString (productId record)),
      (''Product Name'', VString (productName record)),
      (''Brand'', VString (Sales.brand record)),
      (''Product Category'', VString (Sales.productCategory record)),
      (''Tags'', VStrings (Sales.tags record)),
      (''Quantity'', VInt (quantity record)),
      (''Price per Unit'', VNumber (pricePerUnit record)),
      (''Discount Percentage'', VNumber (discountPercentage record)),
      (''Total Amount'', VNumber (totalAmount record)),
      (''Final Amount'', VNumber (finalAmount record)),
      (''Payment Method'', VString (Sales.paymentMethod record)),
      (''Order Status'', VString (Sales.orderStatus record)),
      (''Delivery Type'', VString (Sales.deliveryType record)),
      (''Store ID'', VString (storeId record)),
      (''Store Location'', VString (storeLocation record)),
      (''Salesperson ID'', VString (salespersonId record)),
      (''Employee Name'', VString (employeeName record))]"

text \<open>The quotient of two integers as a number, and \<open>Math.ceil\<close>.\<close>

definition js_divide :: "int \<Rightarrow> int \<Rightarrow> number" where
  "js_divide a b =
     (if b = 0 then (if a = 0 then NaN else if a > 0 then PosInfinity else NegInfinity)
      else Finite (of_int a / of_int b))"

fun Math_ceil :: "number \<Rightarrow> number" where
  "Math_ceil (Finite r) = Finite (of_int \<lceil>r\<rceil>)"
| "Math_ceil x = x"

record SalesResponse =
  data :: "row list"
  page :: int
  pageSize :: int
  totalPages :: number
  totalRecords :: int

text \<open>
  \<open>getSales\<close>: page and page size default to 1 and 10; the page of records and the count are
  read with the same predicate; any failure inside the \<open>try\<close> block is replaced by the
  error \<open>Failed to fetch sales data\<close>.
\<close>

definition getSales :: "host \<Rightarrow> Sales list \<Rightarrow> SalesQueryParams \<Rightarrow> error + SalesResponse" where
  "getSales h db params =
     (let page = (case SalesQueryParams.page params of None \<Rightarrow> 1 | Some p \<Rightarrow> p);
          pageSize = (case SalesQueryParams.pageSize params of None \<Rightarrow> 10 | Some n \<Rightarrow> n);
          skip = (page - 1) * pageSize;
          whereClause = buildWhereClause h (search params) (filters params);
          orderBy = buildOrderBy (sort params)
      in case
           bind (findMany db whereClause orderBy skip pageSize) (\<lambda>rawData.
           bind (count db whereClause) (\<lambda>totalRecords.
             let mappedData = map (mapRecord h) rawData;
                 totalPages = Math_ceil (js_divide totalRecords pageSize)
             in Inr \<lparr>data = mappedData, page = page, pageSize = pageSize,
                      totalPages = totalPages, totalRecords = totalRecords\<rparr>))
         of Inl e \<Rightarrow> Inl (Failed ''Failed to fetch sales data'')
          | Inr r \<Rightarrow> Inr r)"

subsection \<open>getFilterOptions\<close>

text \<open>
  \<open>allFields\<close> is the whole collection, read with the eight filter fields selected. A
  \<open>Set\<close> built from an array keeps the first occurrence of each value, in order.
\<close>

definition setAdd :: "'a list \<Rightarrow> 'a \<Rightarrow> 'a list" where
  "setAdd s x = (if x \<in> set s then s else s @ [x])"

definition arrayFromSet :: "'a list \<Rightarrow> 'a list" where
  "arrayFromSet xs = foldl setAdd [] xs"

text \<open>\<open>filter(Boolean)\<close> on strings drops the empty string; the default \<open>sort\<close> orders
  strings by their code units.\<close>

definition distinctValues :: "string list \<Rightarrow> string list" where
  "distinctValues xs = sort_key (\<lambda>s. s) (arrayFromSet (filter (\<lambda>s. s \<noteq> []) xs))"

record FilterOptions =
  customerRegions :: "string list"
  genders :: "string list"
  productCategories :: "string list"
  paymentMethods :: "string list"
  orderStatuses :: "string list"
  deliveryTypes :: "string list"
  brands :: "string list"
  tags :: "string list"

definition getFilterOptions :: "Sales list \<Rightarrow> error + FilterOptions" where
  "getFilterOptions allFields =
     Inr \<lparr>customerRegions = distinctValues (map Sales.customerRegion allFields),
          genders = distinctValues (map Sales.gender allFields),
          productCategories = distinctValues (map Sales.productCategory allFields),
          paymentMethods = distinctValues (map Sales.paymentMethod allFields),
          orderStatuses = distinctValues (map Sales.orderStatus allFields),
          deliveryTypes = distinctValues (map Sales.deliveryType allFields),
          brands = distinctValues (map Sales.brand allFields),
          tags = distinctValues (concat (map Sales.tags allFields))\<rparr>"

section \<open>Well-formed requests\<close>

text \<open>
  The ranges that a filter set retains: an age or price bound is at least 0 (so a price bound is
  a number), and a date bound is a value from which the \<open>Date\<close> constructor makes a valid date.
\<close>

definition rangesWellFormed :: "host \<Rightarrow> SalesFilters \<Rightarrow> bool" where
  "rangesWellFormed h fs =
     ((case ageMin fs of None \<Rightarrow> True | Some a \<Rightarrow> 0 \<le> a) \<and>
      (case ageMax fs of None \<Rightarrow> True | Some a \<Rightarrow> 0 \<le> a) \<and>
      (case priceMin fs of None \<Rightarrow> True | Some x \<Rightarrow> number_le (Finite 0) x) \<and>
      (case priceMax fs of None \<Rightarrow> True | Some x \<Rightarrow> number_le (Finite 0) x) \<and>
      (case dateFrom fs of None \<Rightarrow> True | Some v \<Rightarrow> newDate h (Some v) \<noteq> InvalidDate) \<and>
      (case dateTo fs of None \<Rightarrow> True | Some v \<Rightarrow> newDate h (Some v) \<noteq> InvalidDate))"

text \<open>
  A request is well formed when its page is at least 1, its page size lies between 1 and 100,
  and its filters are present with well-formed ranges.
\<close>

definition wellFormed :: "host \<Rightarrow> SalesQueryParams \<Rightarrow> bool" where
  "wellFormed h p =
     ((case SalesQueryParams.page p of None \<Rightarrow> False | Some n \<Rightarrow> 1 \<le> n) \<and>
      (case SalesQueryParams.pageSize p of None \<Rightarrow> False | Some n \<Rightarrow> 1 \<le> n \<and> n \<le> 100) \<and>
      (case filters p of None \<Rightarrow> False | Some fs \<Rightarrow> rangesWellFormed h fs))"

text \<open>
  The search term as the specification words it: present exactly when the raw parameter is a
  string that is not empty after trimming, and then the trimmed text.
\<close>

definition searchTerm :: "qval option \<Rightarrow> string option" where
  "searchTerm v =
     (case v of
        Some (QStr s) \<Rightarrow> if js_trim s \<noteq> [] then Some (js_trim s) else None
      | _ \<Rightarrow> None)"

section \<open>The conditions of the present filters\<close>

text \<open>
  What each filter contributes to the conjunction, in the words of the specification: nothing
  when it is absent or empty, one condition when it is present. A search term is present when
  something is left of it after trimming; a multi-select filter when it has at least one value;
  a range when one of its bounds is there (for the dates: a non-empty string or an array).
\<close>

definition searchCondition :: "string option \<Rightarrow> SalesWhereInput list" where
  "searchCondition term =
     (case term of
        None \<Rightarrow> []
      | Some s \<Rightarrow>
          if js_trim s \<noteq> [] then
            [OR [Contains CustomerName (js_trim s), Contains PhoneNumber (js_trim s)]]
          else [])"

definition memberCondition :: "(string list \<Rightarrow> SalesWhereInput) \<Rightarrow> string list option \<Rightarrow> SalesWhereInput list" where
  "memberCondition mk values = (case values of None \<Rightarrow> [] | Some vs \<Rightarrow> if vs = [] then [] else [mk vs])"

definition rangeCondition :: "('a option \<Rightarrow> 'a option \<Rightarrow> SalesWhereInput) \<Rightarrow> 'a option \<Rightarrow> 'a option \<Rightarrow> SalesWhereInput list" where
  "rangeCondition mk lo hi = (if lo = None \<and> hi = None then [] else [mk lo hi])"

definition dateBounds :: "host \<Rightarrow> SalesFilters \<Rightarrow> jsdate option \<times> jsdate option" where
  "dateBounds h fs =
     (if truthy (dateFrom fs) then Some (newDate h (dateFrom fs)) else None,
      if truthy (dateTo fs) then Some (setHours_23_59_59_999 h (newDate h (dateTo fs))) else None)"

definition filterConditions :: "host \<Rightarrow> SalesFilters \<Rightarrow> SalesWhereInput list" where
  "filterConditions h fs =
     memberCondition (In CustomerRegion) (SalesFilters.customerRegion fs) @
     memberCondition (In Gender) (SalesFilters.gender fs) @
     rangeCondition Age (ageMin fs) (ageMax fs) @
     memberCondition (In ProductCategory) (SalesFilters.productCategory fs) @
     memberCondition HasSome (SalesFilters.tags fs) @
     memberCondition (In PaymentMethod) (SalesFilters.paymentMethod fs) @
     memberCondition (In OrderStatus) (SalesFilters.orderStatus fs) @
     memberCondition (In DeliveryType) (SalesFilters.deliveryType fs) @
     memberCondition (In Brand) (SalesFilters.brand fs) @
     rangeCondition Date (fst (dateBounds h fs)) (snd (dateBounds h fs)) @
     rangeCondition FinalAmount (priceMin fs) (priceMax fs)"

definition presentConditions :: "host \<Rightarrow> string option \<Rightarrow> SalesFilters option \<Rightarrow> SalesWhereInput list" where
  "presentConditions h term fo =
     searchCondition term @ (case fo of None \<Rightarrow> [] | Some fs \<Rightarrow> filterConditions h fs)"

text \<open>The conditions on the transaction date among a list of conditions.\<close>

fun isDateCondition :: "SalesWhereInput \<Rightarrow> bool" where
  "isDateCondition (Date lo hi) = True"
| "isDateCondition c = False"

section \<open>Notions of the specification about the service\<close>

text \<open>
  The page and page size that \<open>getSales\<close> works with, and the records of the collection
  that match the predicate compiled from a request.
\<close>

definition requestedPage :: "SalesQueryParams \<Rightarrow> int" where
  "requestedPage params = (case SalesQueryParams.page params of None \<Rightarrow> 1 | Some p \<Rightarrow> p)"

definition requestedPageSize :: "SalesQueryParams \<Rightarrow> int" where
  "requestedPageSize params = (case SalesQueryParams.pageSize params of None \<Rightarrow> 10 | Some n \<Rightarrow> n)"

definition matchingRecords :: "host \<Rightarrow> Sales list \<Rightarrow> SalesQueryParams \<Rightarrow> Sales list" where
  "matchingRecords h db params =
     filter (matches (buildWhereClause h (search params) (filters params))) db"

text \<open>
  The sort resolver as the specification tabulates it: each token with its field and
  direction; an absent token, and one that is not in the table, give the transaction date,
  descending.
\<close>

definition sortTable :: "(string \<times> OrderBy) list" where
  "sortTable =
     [(''date-newest'', OrderBy ByDate Desc),
      (''date-oldest'', OrderBy ByDate Asc),
      (''quantity-high'', OrderBy ByQuantity Desc),
      (''quantity-low'', OrderBy ByQuantity Asc),
      (''name-asc'', OrderBy ByCustomerName Asc),
      (''name-desc'', OrderBy ByCustomerName Desc)]"

definition resolveSort :: "string option \<Rightarrow> OrderBy" where
  "resolveSort token =
     (case token of
        None \<Rightarrow> OrderBy ByDate Desc
      | Some t \<Rightarrow> (case map_of sortTable t of None \<Rightarrow> OrderBy ByDate Desc | Some ob \<Rightarrow> ob))"

text \<open>
  A catalog of the values stored in a field holds exactly the stored values that are not the
  empty string, without duplicates and in ascending order. Strings are ordered as the default
  \<open>sort\<close> orders them: lexicographically by code unit, so every upper-case letter comes
  before every lower-case one.
\<close>

definition isCatalog :: "string list \<Rightarrow> string list \<Rightarrow> bool" where
  "isCatalog stored catalog =
     (set catalog = {v \<in> set stored. v \<noteq> []} \<and> sorted catalog \<and> distinct catalog)"

section \<open>Sample inputs\<close>

text \<open>
  A raw query from its key-value pairs, and a host to run the definitions on. Its
  \<open>parseFloat\<close> is exact on a string of decimal digits with an optional sign, the only
  numbers the samples use; its \<open>Date.parse\<close> knows two strings, with the time values that
  the ISO format gives them, and rejects every other; its local time is at a fixed offset from
  UTC (in milliseconds).
\<close>

definition query_of :: "(string \<times> qval) list \<Rightarrow> query" where
  "query_of kvs = map_of kvs"

definition sampleHost :: "int \<Rightarrow> host" where
  "sampleHost tza =
     \<lparr>parseFloat = (\<lambda>s. case parseInt (Some (QStr s)) of None \<Rightarrow> NaN | Some n \<Rightarrow> Finite (of_int n)),
      dateParse = map_of [(''2024-01-01'', 1704067200000), (''2024-01-01T12:00:00.000Z'', 1704110400000)],
      localTZA = (\<lambda>t u. tza),
      toISOString = (\<lambda>t. if t = 1704067200000 then ''2024-01-01T00:00:00.000Z''
                          else ''1970-01-01T00:00:00.000Z'')\<rparr>"

definition sampleRecord :: Sales where
  "sampleRecord =
     \<lparr>id = ''t1'', date = 1704067200000, customerId = ''c1'', customerName = ''Neha Yadav'',
      phoneNumber = ''9876543210'', gender = ''Female'', age = 25, customerRegion = ''East'',
      customerType = ''New'', productId = ''p1'', productName = ''Shirt'', brand = ''Acme'',
      productCategory = ''Clothing'', tags = [''casual'', ''cotton''], quantity = 2,
      pricePerUnit = 100, discountPercentage = 10, totalAmount = 200, finalAmount = 180,
      paymentMethod = ''UPI'', orderStatus = ''Completed'', deliveryType = ''Standard'',
      storeId = ''s1'', storeLocation = ''Pune'', salespersonId = ''e1'', employeeName = ''Ravi''\<rparr>"

text \<open>A small collection and a request for page \<open>p\<close> with \<open>n\<close> records a page, oldest first.\<close>

definition sampleData :: "Sales list" where
  "sampleData =
     [sampleRecord,
      sampleRecord\<lparr>id := ''t2'', date := 5, Sales.brand := ''''\<rparr>,
      sampleRecord\<lparr>id := ''t3'', Sales.gender := ''Male'', Sales.tags := [''b'', ''casual'', ''Z'']\<rparr>]"

definition sampleRequest :: "int \<Rightarrow> int \<Rightarrow> SalesQueryParams" where
  "sampleRequest p n =
     \<lparr>SalesQueryParams.page = Some p, SalesQueryParams.pageSize = Some n, search = None,
      sort = Some ''date-oldest'', filters = Some emptyFilters\<rparr>"

section \<open>The validator never fails and narrows its input\<close>

lemma bind_Inr [simp]: "bind (Inr x) f = f x" by (simp add: bind_def)
lemma bind_Inl [simp]: "bind (Inl e) f = Inl e" by (simp add: bind_def)

lemma parseArrayParam_cases:
  "parseArrayParam None = Inr []"
  "parseArrayParam (Some (QArr xs)) = Inr (filter (\<lambda>item. js_trim item \<noteq> []) xs)"
  "parseArrayParam (Some (QStr s)) = Inr (filter (\<lambda>t. t \<noteq> []) (map js_trim (js_split (CHR '','') s)))"
  by (simp_all add: parseArrayParam_def)

lemma parseArrayParam_total: "\<exists>xs. parseArrayParam v = Inr xs"
  by (cases v rule: truthy.cases) (simp_all add: parseArrayParam_cases)

lemma parse_customerRegion_Inr:
  "\<exists>v. parse_customerRegion q f = Inr (if truthy (q ''customerRegion'') then f\<lparr>SalesFilters.customerRegion := v\<rparr> else f)"
  using parseArrayParam_total[of "q ''customerRegion''"] by (auto simp: parse_customerRegion_def)

lemma ranges_parse_customerRegion:
  "parse_customerRegion q f = Inr f' \<Longrightarrow> rangesWellFormed h f \<Longrightarrow> rangesWellFormed h f'"
  using parse_customerRegion_Inr[of q f] by (auto simp: rangesWellFormed_def split: if_splits)

lemma parse_gender_Inr:
  "\<exists>v. parse_gender q f = Inr (if truthy (q ''gender'') then f\<lparr>SalesFilters.gender := v\<rparr> else f)"
  using parseArrayParam_total[of "q ''gender''"] by (auto simp: parse_gender_def)

lemma ranges_parse_gender:
  "parse_gender q f = Inr f' \<Longrightarrow> rangesWellFormed h f \<Longrightarrow> rangesWellFormed h f'"
  using parse_gender_Inr[of q f] by (auto simp: rangesWellFormed_def split: if_splits)

lemma parse_productCategory_Inr:
  "\<exists>v. parse_productCategory q f = Inr (if truthy (q ''productCategory'') then f\<lparr>SalesFilters.productCategory := v\<rparr> else f)"
  using parseArrayParam_total[of "q ''productCategory''"] by (auto simp: parse_productCategory_def)

lemma ranges_parse_productCategory:
  "parse_productCategory q f = Inr f' \<Longrightarrow> rangesWellFormed h f \<Longrightarrow> rangesWellFormed h f'"
  using parse_productCategory_Inr[of q f] by (auto simp: rangesWellFormed_def split: if_splits)

lemma parse_tags_Inr:
  "\<exists>v. parse_tags q f = Inr (if truthy (q ''tags'') then f\<lparr>SalesFilters.tags := v\<rparr> else f)"
  using parseArrayParam_total[of "q ''tags''"] by (auto simp: parse_tags_def)

lemma ranges_parse_tags:
  "parse_tags q f = Inr f' \<Longrightarrow> rangesWellFormed h f \<Longrightarrow> rangesWellFormed h f'"
  using parse_tags_Inr[of q f] by (auto simp: rangesWellFormed_def split: if_splits)

lemma parse_paymentMethod_Inr:
  "\<exists>v. parse_paymentMethod q f = Inr (if truthy (q ''paymentMethod'') then f\<lparr>SalesFilters.paymentMethod := v\<rparr> else f)"
  using parseArrayParam_total[of "q ''paymentMethod''"] by (auto simp: parse_paymentMethod_def)

lemma ranges_parse_paymentMethod:
  "parse_paymentMethod q f = Inr f' \<Longrightarrow> rangesWellFormed h f \<Longrightarrow> rangesWellFormed h f'"
  using parse_paymentMethod_Inr[of q f] by (auto simp: rangesWellFormed_def split: if_splits)

lemma parse_orderStatus_Inr:
  "\<exists>v. parse_orderStatus q f = Inr (if truthy (q ''orderStatus'') then f\<lparr>SalesFilters.orderStatus := v\<rparr> else f)"
  using parseArrayParam_total[of "q ''orderStatus''"] by (auto simp: parse_orderStatus_def)

lemma ranges_parse_orderStatus:
  "parse_orderStatus q f = Inr f' \<Longrightarrow> rangesWellFormed h f \<Longrightarrow> rangesWellFormed h f'"
  using parse_orderStatus_Inr[of q f] by (auto simp: rangesWellFormed_def split: if_splits)

lemma parse_deliveryType_Inr:
  "\<exists>v. parse_deliveryType q f = Inr (if truthy (q ''deliveryType'') then f\<lparr>SalesFilters.deliveryType := v\<rparr> else f)"
  using parseArrayParam_total[of "q ''deliveryType''"] by (auto simp: parse_deliveryType_def)

lemma ranges_parse_deliveryType:
  "parse_deliveryType q f = Inr f' \<Longrightarrow> rangesWellFormed h f \<Longrightarrow> rangesWellFormed h f'"
  using parse_deliveryType_Inr[of q f] by (auto simp: rangesWellFormed_def split: if_splits)

lemma parse_brand_Inr:
  "\<exists>v. parse_brand q f = Inr (if truthy (q ''brand'') then f\<lparr>SalesFilters.brand := v\<rparr> else f)"
  using parseArrayParam_total[of "q ''brand''"] by (auto simp: parse_brand_def)

lemma ranges_parse_brand:
  "parse_brand q f = Inr f' \<Longrightarrow> rangesWellFormed h f \<Longrightarrow> rangesWellFormed h f'"
  using parse_brand_Inr[of q f] by (auto simp: rangesWellFormed_def split: if_splits)

lemma ranges_parse_ageMin: "rangesWellFormed h f \<Longrightarrow> rangesWellFormed h (parse_ageMin q f)"
  by (simp add: rangesWellFormed_def parse_ageMin_def split: option.splits)

lemma ranges_parse_ageMax: "rangesWellFormed h f \<Longrightarrow> rangesWellFormed h (parse_ageMax q f)"
  by (simp add: rangesWellFormed_def parse_ageMax_def split: option.splits)

lemma ranges_parse_dateFrom: "rangesWellFormed h f \<Longrightarrow> rangesWellFormed h (parse_dateFrom h q f)"
  by (cases "q ''dateFrom''") (simp_all add: rangesWellFormed_def parse_dateFrom_def isValidDate_def)

lemma ranges_parse_dateTo: "rangesWellFormed h f \<Longrightarrow> rangesWellFormed h (parse_dateTo h q f)"
  by (cases "q ''dateTo''") (simp_all add: rangesWellFormed_def parse_dateTo_def isValidDate_def)

lemma ranges_parse_priceMin: "rangesWellFormed h f \<Longrightarrow> rangesWellFormed h (parse_priceMin h q f)"
  by (simp add: rangesWellFormed_def parse_priceMin_def Let_def)

lemma ranges_parse_priceMax: "rangesWellFormed h f \<Longrightarrow> rangesWellFormed h (parse_priceMax h q f)"
  by (simp add: rangesWellFormed_def parse_priceMax_def Let_def)

lemma parseFilters_ranges: "\<exists>fs. parseFilters h q = Inr fs \<and> rangesWellFormed h fs"
proof -
  have e: "rangesWellFormed h emptyFilters"
    by (simp add: rangesWellFormed_def emptyFilters_def)
  obtain f1 where 1: "parse_customerRegion q emptyFilters = Inr f1"
    using parse_customerRegion_Inr by blast
  obtain f2 where 2: "parse_gender q f1 = Inr f2" using parse_gender_Inr by blast
  obtain f3 where 3: "parse_productCategory q f2 = Inr f3" using parse_productCategory_Inr by blast
  obtain f4 where 4: "parse_tags q f3 = Inr f4" using parse_tags_Inr by blast
  obtain f5 where 5: "parse_paymentMethod q f4 = Inr f5" using parse_paymentMethod_Inr by blast
  obtain f6 where 6: "parse_orderStatus q f5 = Inr f6" using parse_orderStatus_Inr by blast
  obtain f7 where 7: "parse_deliveryType q f6 = Inr f7" using parse_deliveryType_Inr by blast
  obtain f8 where 8: "parse_brand q f7 = Inr f8" using parse_brand_Inr by blast
  note r1 = ranges_parse_customerRegion[OF 1 e]
  note r2 = ranges_parse_gender[OF 2 r1]
  note r3 = ranges_parse_productCategory[OF 3 r2]
  note r4 = ranges_parse_tags[OF 4 r3]
  note r5 = ranges_parse_paymentMethod[OF 5 r4]
  note r6 = ranges_parse_orderStatus[OF 6 r5]
  note r7 = ranges_parse_deliveryType[OF 7 r6]
  note r8 = ranges_parse_brand[OF 8 r7]
  from r8 have "rangesWellFormed h f8" .
  then have "rangesWellFormed h (parse_priceMax h q (parse_priceMin h q
      (parse_dateTo h q (parse_dateFrom h q (parse_ageMax q (parse_ageMin q f8))))))"
    by (intro ranges_parse_priceMax ranges_parse_priceMin ranges_parse_dateTo
        ranges_parse_dateFrom ranges_parse_ageMax ranges_parse_ageMin)
  moreover have "parseFilters h q = Inr (parse_priceMax h q (parse_priceMin h q
      (parse_dateTo h q (parse_dateFrom h q (parse_ageMax q (parse_ageMin q f8))))))"
    by (simp add: parseFilters_def 1 2 3 4 5 6 7 8)
  ultimately show ?thesis by blast
qed

lemma page_step:
  "(if c then (case x of None \<Rightarrow> p\<lparr>SalesQueryParams.page := Some 1\<rparr>
               | Some n \<Rightarrow> if n > 0 then p\<lparr>SalesQueryParams.page := Some n\<rparr>
                           else p\<lparr>SalesQueryParams.page := Some 1\<rparr>)
    else p\<lparr>SalesQueryParams.page := Some 1\<rparr>) =
   p\<lparr>SalesQueryParams.page :=
       Some (if c then (case x of None \<Rightarrow> 1 | Some n \<Rightarrow> if n > 0 then n else 1) else 1)\<rparr>"
  by (cases x) simp_all

lemma pageSize_step:
  "(if c then (case x of None \<Rightarrow> p\<lparr>SalesQueryParams.pageSize := Some 10\<rparr>
               | Some n \<Rightarrow> if n > 0 \<and> n \<le> 100 then p\<lparr>SalesQueryParams.pageSize := Some n\<rparr>
                           else p\<lparr>SalesQueryParams.pageSize := Some 10\<rparr>)
    else p\<lparr>SalesQueryParams.pageSize := Some 10\<rparr>) =
   p\<lparr>SalesQueryParams.pageSize :=
       Some (if c then (case x of None \<Rightarrow> 10 | Some n \<Rightarrow> if n > 0 \<and> n \<le> 100 then n else 10)
             else 10)\<rparr>"
  by (cases x) simp_all

text \<open>The fields of a validated request, read off the raw query.\<close>

lemma validateQueryParams_fields:
  "\<exists>fs. parseFilters h q = Inr fs \<and>
     validateQueryParams h q =
       Inr \<lparr>SalesQueryParams.page =
              Some (if truthy (q ''page'') then
                      (case parseInt (q ''page'') of None \<Rightarrow> 1 | Some n \<Rightarrow> if n > 0 then n else 1)
                    else 1),
            SalesQueryParams.pageSize =
              Some (if truthy (q ''pageSize'') then
                      (case parseInt (q ''pageSize'') of None \<Rightarrow> 10
                       | Some n \<Rightarrow> if n > 0 \<and> n \<le> 100 then n else 10)
                    else 10),
            search = (case q ''search'' of Some (QStr s) \<Rightarrow> if s \<noteq> [] then Some (js_trim s) else None
                      | _ \<Rightarrow> None),
            sort = (case q ''sort'' of Some (QStr s) \<Rightarrow> if s \<noteq> [] then Some s else None
                    | _ \<Rightarrow> None),
            filters = Some fs\<rparr>"
proof -
  obtain fs where fs: "parseFilters h q = Inr fs" using parseFilters_ranges by blast
  have "validateQueryParams h q = Inr \<lparr>SalesQueryParams.page =
              Some (if truthy (q ''page'') then
                      (case parseInt (q ''page'') of None \<Rightarrow> 1 | Some n \<Rightarrow> if n > 0 then n else 1)
                    else 1),
            SalesQueryParams.pageSize =
              Some (if truthy (q ''pageSize'') then
                      (case parseInt (q ''pageSize'') of None \<Rightarrow> 10
                       | Some n \<Rightarrow> if n > 0 \<and> n \<le> 100 then n else 10)
                    else 10),
            search = (case q ''search'' of Some (QStr s) \<Rightarrow> if s \<noteq> [] then Some (js_trim s) else None
                      | _ \<Rightarrow> None),
            sort = (case q ''sort'' of Some (QStr s) \<Rightarrow> if s \<noteq> [] then Some s else None
                    | _ \<Rightarrow> None),
            filters = Some fs\<rparr>"
    by (cases "q ''search''" rule: truthy.cases; cases "q ''sort''" rule: truthy.cases)
      (simp_all add: validateQueryParams_def fs Let_def page_step pageSize_step)
  with fs show ?thesis by blast
qed

lemma validated_page:
  "validateQueryParams h q = Inr p \<Longrightarrow>
   SalesQueryParams.page p =
     Some (if truthy (q ''page'') then
             (case parseInt (q ''page'') of None \<Rightarrow> 1 | Some n \<Rightarrow> if n > 0 then n else 1)
           else 1)"
  using validateQueryParams_fields[of h q] by (elim exE conjE) clarsimp

lemma validated_pageSize:
  "validateQueryParams h q = Inr p \<Longrightarrow>
   SalesQueryParams.pageSize p =
     Some (if truthy (q ''pageSize'') then
             (case parseInt (q ''pageSize'') of None \<Rightarrow> 10
              | Some n \<Rightarrow> if n > 0 \<and> n \<le> 100 then n else 10)
           else 10)"
  using validateQueryParams_fields[of h q] by (elim exE conjE) clarsimp

lemma validated_search:
  "validateQueryParams h q = Inr p \<Longrightarrow>
   search p = (case q ''search'' of Some (QStr s) \<Rightarrow> if s \<noteq> [] then Some (js_trim s) else None
               | _ \<Rightarrow> None)"
  using validateQueryParams_fields[of h q] by (elim exE conjE) clarsimp

lemma validated_sort:
  "validateQueryParams h q = Inr p \<Longrightarrow>
   sort p = (case q ''sort'' of Some (QStr s) \<Rightarrow> if s \<noteq> [] then Some s else None | _ \<Rightarrow> None)"
  using validateQueryParams_fields[of h q] by (elim exE conjE) clarsimp

lemma validated_filters:
  "validateQueryParams h q = Inr p \<Longrightarrow> parseFilters h q = Inr fs \<Longrightarrow> filters p = Some fs"
  using validateQueryParams_fields[of h q] by (elim exE conjE) clarsimp

section \<open>Helper facts about the compiler and about trimming\<close>

lemma whereConditions_blank:
  "js_trim s = [] \<Longrightarrow> whereConditions h (Some s) fo = whereConditions h None fo"
  by (simp add: whereConditions_def)

lemma dropWhile_rev_fix:
  "dropWhile P (rev (dropWhile P (rev (dropWhile P s)))) = rev (dropWhile P (rev (dropWhile P s)))"
proof (cases "dropWhile P (rev (dropWhile P s)) = []")
  case True
  show ?thesis unfolding True by simp
next
  case False
  let ?a = "dropWhile P s"
  let ?b = "dropWhile P (rev ?a)"
  have a: "?a \<noteq> []"
  proof
    assume e: "?a = []"
    have "?b = []" unfolding e by simp
    with False show False by blast
  qed
  have "rev ?a = takeWhile P (rev ?a) @ ?b" by simp
  then have "last (rev ?a) = last ?b" using False by (metis last_appendR)
  then have "last ?b = hd ?a" using a by (simp add: last_rev)
  moreover have "\<not> P (hd ?a)" using a by (rule hd_dropWhile)
  ultimately have "\<not> P (hd (rev ?b))" using False by (simp add: hd_rev)
  then show ?thesis by (simp add: dropWhile_eq_self_iff)
qed

lemma js_trim_idem: "js_trim (js_trim s) = js_trim s"
  unfolding js_trim_def using dropWhile_rev_fix[of isWhiteSpace s]
  by simp

lemma parseArrayParam_string_tokens:
  "parseArrayParam (Some (QStr s)) = Inr xs \<Longrightarrow> x \<in> set xs \<Longrightarrow> x \<noteq> [] \<and> js_trim x = x"
  by (auto simp: parseArrayParam_cases js_trim_idem)

section \<open>Claims about the validator\<close>

text \<open>
  C3, in the form that holds of the code. The search term of a validated request is present
  exactly when the raw \<open>search\<close> parameter is a non-empty string, and it is then the
  trimmed value; an empty value leaves it absent. A value of white space only leaves it present
  as the empty string: this is the one case in which it differs from the term the
  specification describes, and \<open>buildWhereClause\<close> compiles both to the same predicate, as
  it does with no search parameter at all.
\<close>

theorem validated_search_term:
  assumes "validateQueryParams h q = Inr p"
  shows "search p = (case q ''search'' of
                       Some (QStr s) \<Rightarrow> if s \<noteq> [] then Some (js_trim s) else None
                     | _ \<Rightarrow> None) \<and>
         (search p = searchTerm (q ''search'') \<or>
          search p = Some '''' \<and> searchTerm (q ''search'') = None) \<and>
         buildWhereClause h (search p) fo = buildWhereClause h (searchTerm (q ''search'')) fo"
proof -
  note s = validated_search[OF assms]
  have 2: "search p = searchTerm (q ''search'') \<or>
          search p = Some '''' \<and> searchTerm (q ''search'') = None"
    by (cases "q ''search''" rule: truthy.cases) (auto simp: s searchTerm_def js_trim_def)
  have "whereConditions h (search p) fo = whereConditions h (searchTerm (q ''search'')) fo"
    using 2 by (auto simp: whereConditions_blank js_trim_def)
  then have "buildWhereClause h (search p) fo = buildWhereClause h (searchTerm (q ''search'')) fo"
    by (simp add: buildWhereClause_def)
  with s 2 show ?thesis by blast
qed

theorem validated_search_term_witness:
  "validateQueryParams (sampleHost 0) (query_of [(''search'', QStr '' neha '')]) =
     Inr \<lparr>SalesQueryParams.page = Some 1, SalesQueryParams.pageSize = Some 10, search = Some ''neha'',
          sort = None, filters = Some emptyFilters\<rparr> \<and>
   searchTerm (query_of [(''search'', QStr '' neha '')] ''search'') = Some ''neha'' \<and>
   buildWhereClause (sampleHost 0) (Some ''neha'') (Some emptyFilters) =
     AND [OR [Contains CustomerName ''neha'', Contains PhoneNumber ''neha'']]"
proof -
  have run: "validateQueryParams (sampleHost 0) (query_of [(''search'', QStr '' neha '')]) =
     Inr \<lparr>SalesQueryParams.page = Some 1, SalesQueryParams.pageSize = Some 10, search = Some ''neha'',
          sort = None, filters = Some emptyFilters\<rparr>"
    by code_simp
  have st: "searchTerm (query_of [(''search'', QStr '' neha '')] ''search'') = Some ''neha''"
    by code_simp
  have "buildWhereClause (sampleHost 0) (searchTerm (query_of [(''search'', QStr '' neha '')] ''search''))
          (Some emptyFilters) =
        AND [OR [Contains CustomerName ''neha'', Contains PhoneNumber ''neha'']]"
    by code_simp
  with validated_search_term[OF run, of "Some emptyFilters"] run st show ?thesis by simp
qed

theorem validated_search_term_counterexample:
  "validateQueryParams (sampleHost 0) (query_of [(''search'', QStr '' '')]) =
     Inr \<lparr>SalesQueryParams.page = Some 1, SalesQueryParams.pageSize = Some 10, search = Some '''', sort = None,
          filters = Some emptyFilters\<rparr> \<and>
   js_trim '' '' = ''''"
  by code_simp

text \<open>
  C4. The validated list of a multi-select filter should hold the supplied tokens split on
  commas, trimmed, and without the empty ones, whether they come as one string or as an array.
  \<open>parseArrayParam\<close> does so for a string (\<open>parseArrayParam_string_tokens\<close> above). For
  an array it keeps every item whose trimmed text is not empty as it was supplied: it neither
  trims the item nor splits it on commas. The evaluation below is the repeated key
  \<open>gender= Male&gender=Female,Other\<close>, beside the same tokens in one string.
\<close>

theorem parseArrayParam_array_untrimmed:
  "parseArrayParam (Some (QArr ['' Male'', ''Female,Other''])) = Inr ['' Male'', ''Female,Other''] \<and>
   js_trim '' Male'' = ''Male'' \<and>
   parseArrayParam (Some (QStr '' Male,Female,Other'')) = Inr [''Male'', ''Female'', ''Other''] \<and>
   validateQueryParams (sampleHost 0) (query_of [(''gender'', QArr ['' Male'', ''Female,Other''])]) =
     Inr \<lparr>SalesQueryParams.page = Some 1, SalesQueryParams.pageSize = Some 10, search = None,
          sort = None,
          filters = Some (emptyFilters\<lparr>SalesFilters.gender := Some ['' Male'', ''Female,Other'']\<rparr>)\<rparr>"
  by code_simp

text \<open>
  C5. For every raw query that maps its keys to strings or arrays of strings, and whatever the
  host's number and date parsers return, \<open>validateQueryParams\<close> returns a request: none of
  its method calls throws. The filters are those of \<open>parseFilters\<close>, which returns as well;
  a page that does not parse or is not positive becomes 1, a page size that does not parse or
  lies outside 1..100 becomes 10, and a sort value that is not a non-empty string is dropped.
\<close>

theorem validateQueryParams_never_raises:
  "\<exists>p fs. validateQueryParams h q = Inr p \<and> parseFilters h q = Inr fs \<and> filters p = Some fs \<and>
     SalesQueryParams.page p =
       Some (if truthy (q ''page'') then
               (case parseInt (q ''page'') of None \<Rightarrow> 1 | Some n \<Rightarrow> if n > 0 then n else 1)
             else 1) \<and>
     SalesQueryParams.pageSize p =
       Some (if truthy (q ''pageSize'') then
               (case parseInt (q ''pageSize'') of None \<Rightarrow> 10
                | Some n \<Rightarrow> if n > 0 \<and> n \<le> 100 then n else 10)
             else 10) \<and>
     SalesQueryParams.sort p =
       (case q ''sort'' of Some (QStr s) \<Rightarrow> if s \<noteq> [] then Some s else None | _ \<Rightarrow> None)"
proof -
  obtain p where p: "validateQueryParams h q = Inr p"
    using validateQueryParams_fields[of h q] by blast
  obtain fs where fs: "parseFilters h q = Inr fs"
    using parseFilters_ranges by blast
  show ?thesis
    using p fs validated_page[OF p] validated_pageSize[OF p] validated_sort[OF p]
      validated_filters[OF p fs]
    by blast
qed

theorem validateQueryParams_never_raises_witness:
  "validateQueryParams (sampleHost 0)
     (query_of [(''page'', QArr [''2'', ''x'']), (''pageSize'', QStr ''abc''),
                (''search'', QArr [''a'', ''b'']), (''sort'', QStr ''sideways''),
                (''tags'', QArr []), (''ageMin'', QStr ''old''), (''priceMax'', QStr ''-1''),
                (''dateFrom'', QArr [''2024-01-01'', ''2024-01-02''])]) =
   Inr \<lparr>SalesQueryParams.page = Some 2, SalesQueryParams.pageSize = Some 10, search = None,
        sort = Some ''sideways'', filters = Some (emptyFilters\<lparr>SalesFilters.tags := Some []\<rparr>)\<rparr>"
proof -
  from validateQueryParams_never_raises[of "sampleHost 0"
      "query_of [(''page'', QArr [''2'', ''x'']), (''pageSize'', QStr ''abc''),
                (''search'', QArr [''a'', ''b'']), (''sort'', QStr ''sideways''),
                (''tags'', QArr []), (''ageMin'', QStr ''old''), (''priceMax'', QStr ''-1''),
                (''dateFrom'', QArr [''2024-01-01'', ''2024-01-02''])]"]
  obtain p where "validateQueryParams (sampleHost 0)
     (query_of [(''page'', QArr [''2'', ''x'']), (''pageSize'', QStr ''abc''),
                (''search'', QArr [''a'', ''b'']), (''sort'', QStr ''sideways''),
                (''tags'', QArr []), (''ageMin'', QStr ''old''), (''priceMax'', QStr ''-1''),
                (''dateFrom'', QArr [''2024-01-01'', ''2024-01-02''])]) = Inr p"
    by blast
  moreover have "validateQueryParams (sampleHost 0)
     (query_of [(''page'', QArr [''2'', ''x'']), (''pageSize'', QStr ''abc''),
                (''search'', QArr [''a'', ''b'']), (''sort'', QStr ''sideways''),
                (''tags'', QArr []), (''ageMin'', QStr ''old''), (''priceMax'', QStr ''-1''),
                (''dateFrom'', QArr [''2024-01-01'', ''2024-01-02''])]) =
   Inr \<lparr>SalesQueryParams.page = Some 2, SalesQueryParams.pageSize = Some 10, search = None,
        sort = Some ''sideways'', filters = Some (emptyFilters\<lparr>SalesFilters.tags := Some []\<rparr>)\<rparr>"
    by code_simp
  ultimately show ?thesis by simp
qed

text \<open>
  C10. Every request that \<open>validateQueryParams\<close> produces is well formed: the page is at
  least 1, the page size lies between 1 and 100, each retained age and price bound is at least
  0, each retained date bound makes a valid date, and the filters are present.
\<close>

theorem validateQueryParams_wellFormed:
  assumes "validateQueryParams h q = Inr p"
  shows "wellFormed h p"
proof -
  obtain fs where fs: "parseFilters h q = Inr fs" "rangesWellFormed h fs"
    using parseFilters_ranges by blast
  have "case SalesQueryParams.page p of None \<Rightarrow> False | Some n \<Rightarrow> 1 \<le> n"
    by (simp add: validated_page[OF assms] split: option.splits)
  moreover have "case SalesQueryParams.pageSize p of None \<Rightarrow> False | Some n \<Rightarrow> 1 \<le> n \<and> n \<le> 100"
    by (simp add: validated_pageSize[OF assms] split: option.splits)
  moreover have "case filters p of None \<Rightarrow> False | Some fs \<Rightarrow> rangesWellFormed h fs"
    by (simp add: validated_filters[OF assms fs(1)] fs(2))
  ultimately show ?thesis by (simp add: wellFormed_def)
qed

theorem validateQueryParams_wellFormed_witness:
  "validateQueryParams (sampleHost 0)
     (query_of [(''page'', QStr ''0''), (''pageSize'', QStr ''500''), (''ageMin'', QStr ''-3''),
                (''ageMax'', QStr ''40''), (''priceMin'', QStr ''10''),
                (''dateFrom'', QStr ''2024-01-01''), (''dateTo'', QStr ''junk''),
                (''gender'', QStr ''Male, Female'')]) =
   Inr \<lparr>SalesQueryParams.page = Some 1, SalesQueryParams.pageSize = Some 10, search = None, sort = None,
        filters = Some (emptyFilters\<lparr>SalesFilters.gender := Some [''Male'', ''Female''], ageMax := Some 40,
                          dateFrom := Some (QStr ''2024-01-01''), priceMin := Some (Finite 10)\<rparr>)\<rparr> \<and>
   wellFormed (sampleHost 0)
     \<lparr>SalesQueryParams.page = Some 1, SalesQueryParams.pageSize = Some 10, search = None, sort = None,
      filters = Some (emptyFilters\<lparr>SalesFilters.gender := Some [''Male'', ''Female''], ageMax := Some 40,
                        dateFrom := Some (QStr ''2024-01-01''), priceMin := Some (Finite 10)\<rparr>)\<rparr>"
proof -
  have run: "validateQueryParams (sampleHost 0)
     (query_of [(''page'', QStr ''0''), (''pageSize'', QStr ''500''), (''ageMin'', QStr ''-3''),
                (''ageMax'', QStr ''40''), (''priceMin'', QStr ''10''),
                (''dateFrom'', QStr ''2024-01-01''), (''dateTo'', QStr ''junk''),
                (''gender'', QStr ''Male, Female'')]) =
   Inr \<lparr>SalesQueryParams.page = Some 1, SalesQueryParams.pageSize = Some 10, search = None, sort = None,
        filters = Some (emptyFilters\<lparr>SalesFilters.gender := Some [''Male'', ''Female''], ageMax := Some 40,
                          dateFrom := Some (QStr ''2024-01-01''), priceMin := Some (Finite 10)\<rparr>)\<rparr>"
    by code_simp
  from validateQueryParams_wellFormed[OF run] run show ?thesis by (rule conjI[rotated])
qed

section \<open>Claims about the filter compiler\<close>

lemma push_member:
  "(case v of None \<Rightarrow> xs | Some vs \<Rightarrow> if length vs > 0 then push xs (mk vs) else xs) =
   xs @ memberCondition mk v"
  by (simp add: push_def memberCondition_def split: option.splits)

lemma push_range:
  "(if lo \<noteq> None \<or> hi \<noteq> None then push xs (mk lo hi) else xs) = xs @ rangeCondition mk lo hi"
  by (simp add: push_def rangeCondition_def)

lemma push_date:
  "(if truthy (dateFrom fs) \<or> truthy (dateTo fs) then
      push xs (Date (if truthy (dateFrom fs) then Some (newDate h (dateFrom fs)) else None)
                    (if truthy (dateTo fs)
                     then Some (setHours_23_59_59_999 h (newDate h (dateTo fs))) else None))
    else xs) = xs @ rangeCondition Date (fst (dateBounds h fs)) (snd (dateBounds h fs))"
  by (simp add: push_def rangeCondition_def dateBounds_def)

lemma push_search:
  "(case term of None \<Rightarrow> xs
    | Some s \<Rightarrow> if s \<noteq> [] \<and> js_trim s \<noteq> [] then
        push xs (OR [Contains CustomerName (js_trim s), Contains PhoneNumber (js_trim s)])
      else xs) = xs @ searchCondition term"
  by (auto simp: push_def searchCondition_def js_trim_def split: option.splits)

lemma whereConditions_present: "whereConditions h term fo = presentConditions h term fo"
  unfolding whereConditions_def presentConditions_def filterConditions_def
    push_member push_range push_date push_search
  by (simp add: Let_def split: option.splits)

lemma matches_buildWhereClause:
  "matches (buildWhereClause h term fo) r = list_all (\<lambda>c. matches c r) (whereConditions h term fo)"
  by (simp add: buildWhereClause_def Let_def)

text \<open>
  C1. For every search term and every filter set, the array of conditions that
  \<open>buildWhereClause\<close> collects is the list of the conditions of the present filters, one
  for each and in the order of the source: the disjunction of the two \<open>contains\<close> tests for
  a search term, \<open>in\<close> for a multi-select filter with at least one value, \<open>hasSome\<close> for
  the tags, one range for age, date and final amount when a bound is there. An absent or empty
  filter adds nothing. The predicate is the conjunction of that list, a record matches it exactly
  when it matches every condition, and with no condition it is the empty object, which every
  record matches.
\<close>

theorem buildWhereClause_conjunction:
  "whereConditions h term fo = presentConditions h term fo \<and>
   buildWhereClause h term fo =
     (if presentConditions h term fo = [] then Empty else AND (presentConditions h term fo)) \<and>
   matches (buildWhereClause h term fo) r =
     list_all (\<lambda>c. matches c r) (presentConditions h term fo) \<and>
   (presentConditions h term fo = [] \<longrightarrow> matches (buildWhereClause h term fo) r)"
  by (simp add: matches_buildWhereClause whereConditions_present buildWhereClause_def Let_def)

theorem buildWhereClause_conjunction_witness:
  "presentConditions (sampleHost 0) (Some ''  '') (Some (emptyFilters\<lparr>SalesFilters.tags := Some []\<rparr>)) = [] \<and>
   matches (buildWhereClause (sampleHost 0) (Some ''  '') (Some (emptyFilters\<lparr>SalesFilters.tags := Some []\<rparr>)))
     sampleRecord \<and>
   buildWhereClause (sampleHost 0) (Some '' neha '')
     (Some (emptyFilters\<lparr>SalesFilters.gender := Some [''Female''], ageMin := Some 0,
                           SalesFilters.tags := Some [''silk'', ''cotton'']\<rparr>)) =
     AND [OR [Contains CustomerName ''neha'', Contains PhoneNumber ''neha''],
          In Gender [''Female''], Age (Some 0) None, HasSome [''silk'', ''cotton'']] \<and>
   matches (buildWhereClause (sampleHost 0) (Some '' neha '')
     (Some (emptyFilters\<lparr>SalesFilters.gender := Some [''Female''], ageMin := Some 0,
                           SalesFilters.tags := Some [''silk'', ''cotton'']\<rparr>))) sampleRecord"
proof -
  have e: "presentConditions (sampleHost 0) (Some ''  '') (Some (emptyFilters\<lparr>SalesFilters.tags := Some []\<rparr>)) = []"
    by code_simp
  have c: "presentConditions (sampleHost 0) (Some '' neha '')
     (Some (emptyFilters\<lparr>SalesFilters.gender := Some [''Female''], ageMin := Some 0,
                           SalesFilters.tags := Some [''silk'', ''cotton'']\<rparr>)) =
     [OR [Contains CustomerName ''neha'', Contains PhoneNumber ''neha''],
      In Gender [''Female''], Age (Some 0) None, HasSome [''silk'', ''cotton'']]"
    by code_simp
  have m: "list_all (\<lambda>c. matches c sampleRecord)
     [OR [Contains CustomerName ''neha'', Contains PhoneNumber ''neha''],
      In Gender [''Female''], Age (Some 0) None, HasSome [''silk'', ''cotton'']]"
    by code_simp
  from buildWhereClause_conjunction[of "sampleHost 0" "Some ''  ''"
      "Some (emptyFilters\<lparr>SalesFilters.tags := Some []\<rparr>)" sampleRecord]
    buildWhereClause_conjunction[of "sampleHost 0" "Some '' neha ''"
      "Some (emptyFilters\<lparr>SalesFilters.gender := Some [''Female''], ageMin := Some 0,
                           SalesFilters.tags := Some [''silk'', ''cotton'']\<rparr>)" sampleRecord]
    e c m
  show ?thesis by simp
qed

lemma no_date_conditions:
  "filter isDateCondition (memberCondition (In f) v) = []"
  "filter isDateCondition (memberCondition HasSome v) = []"
  "filter isDateCondition (rangeCondition Age a b) = []"
  "filter isDateCondition (rangeCondition FinalAmount x y) = []"
  "filter isDateCondition (searchCondition term) = []"
  "filter isDateCondition (rangeCondition Date lo hi) = rangeCondition Date lo hi"
  by (simp_all add: memberCondition_def rangeCondition_def searchCondition_def split: option.splits)

lemma dateConditions_present:
  "filter isDateCondition (whereConditions h term (Some fs)) =
     (if truthy (dateFrom fs) \<or> truthy (dateTo fs) then
        [Date (if truthy (dateFrom fs) then Some (newDate h (dateFrom fs)) else None)
              (if truthy (dateTo fs)
               then Some (setHours_23_59_59_999 h (newDate h (dateTo fs))) else None)]
      else [])"
proof -
  have "filter isDateCondition (whereConditions h term (Some fs)) =
        rangeCondition Date (fst (dateBounds h fs)) (snd (dateBounds h fs))"
    by (simp add: whereConditions_present presentConditions_def filterConditions_def
        no_date_conditions)
  then show ?thesis by (simp add: rangeCondition_def dateBounds_def)
qed

lemma setHours_utc:
  "\<forall>t u. localTZA h t u = 0 \<Longrightarrow>
   setHours_23_59_59_999 h (TimeValue t) = TimeClip ((t div msPerDay) * msPerDay + 86399999)"
  by (simp add: setHours_23_59_59_999_def Let_def)

lemma same_day_bounds:
  "(d * msPerDay \<le> x \<and> x \<le> d * msPerDay + 86399999) = (x div msPerDay = d)"
proof
  assume a: "d * msPerDay \<le> x \<and> x \<le> d * msPerDay + 86399999"
  define m where "m = x - d * msPerDay"
  have "x = msPerDay * d + m" by (simp add: m_def)
  moreover have "0 \<le> m" using a by (simp add: m_def)
  moreover have "m < msPerDay" using a by (simp add: m_def msPerDay_def)
  ultimately show "x div msPerDay = d" by (rule int_div_pos_eq)
next
  assume e: "x div msPerDay = d"
  define m where "m = x mod msPerDay"
  have "0 \<le> m" by (simp add: m_def msPerDay_def)
  moreover have "m < msPerDay" by (simp add: m_def msPerDay_def)
  moreover have "x = d * msPerDay + m" unfolding m_def e[symmetric] by simp
  ultimately show "d * msPerDay \<le> x \<and> x \<le> d * msPerDay + 86399999"
    by (simp add: msPerDay_def)
qed

lemma same_day_request:
  assumes utc: "\<forall>t u. localTZA h t u = 0"
    and v: "truthy v"
    and parse: "dateParse h (toString v) = Some (d * msPerDay)"
    and lo: "- 8640000000000000 \<le> d * msPerDay"
    and hi: "d * msPerDay + 86399999 \<le> 8640000000000000"
  shows "buildWhereClause h None (Some (emptyFilters\<lparr>dateFrom := v, dateTo := v\<rparr>)) =
           AND [Date (Some (TimeValue (d * msPerDay))) (Some (TimeValue (d * msPerDay + 86399999)))]"
proof -
  have n: "newDate h v = TimeValue (d * msPerDay)"
    using lo hi by (simp add: newDate_def parse TimeClip_def)
  have "(d * msPerDay) div msPerDay = d" by (simp add: msPerDay_def)
  then have e: "setHours_23_59_59_999 h (TimeValue (d * msPerDay)) = TimeValue (d * msPerDay + 86399999)"
    using lo hi by (simp add: setHours_utc[OF utc] TimeClip_def)
  have "presentConditions h None (Some (emptyFilters\<lparr>dateFrom := v, dateTo := v\<rparr>)) =
        [Date (Some (TimeValue (d * msPerDay))) (Some (TimeValue (d * msPerDay + 86399999)))]"
    using v by (simp add: presentConditions_def filterConditions_def searchCondition_def
        memberCondition_def rangeCondition_def dateBounds_def emptyFilters_def n e)
  then show ?thesis
    by (simp add: buildWhereClause_def whereConditions_present)
qed

text \<open>
  C2, in the form that holds of the code. Whenever a date bound is present, \<open>buildWhereClause\<close> emits one date
  condition. Its lower bound (inclusive) is the instant that \<open>dateFrom\<close> denotes, which is
  the start of the day for a date-only ISO string. Its upper bound (inclusive) is 23:59:59.999
  on the day of \<open>dateTo\<close> as \<open>setHours\<close> computes it; on a host whose local time is UTC
  that is the last millisecond of the UTC day that holds the instant of \<open>dateTo\<close>. On such a
  host, a request whose \<open>dateFrom\<close> and \<open>dateTo\<close> are the same string denoting midnight
  UTC of day \<open>d\<close> matches exactly the transactions whose time value lies on day \<open>d\<close>,
  those at 23:59:59 included.
\<close>

theorem date_range_condition:
  "filter isDateCondition (whereConditions h term (Some fs)) =
     (if truthy (dateFrom fs) \<or> truthy (dateTo fs) then
        [Date (if truthy (dateFrom fs) then Some (newDate h (dateFrom fs)) else None)
              (if truthy (dateTo fs)
               then Some (setHours_23_59_59_999 h (newDate h (dateTo fs))) else None)]
      else []) \<and>
   ((\<forall>t u. localTZA h t u = 0) \<longrightarrow>
      setHours_23_59_59_999 h (TimeValue t) = TimeClip ((t div msPerDay) * msPerDay + 86399999)) \<and>
   ((\<forall>t u. localTZA h t u = 0) \<and> truthy v \<and> dateParse h (toString v) = Some (d * msPerDay) \<and>
    - 8640000000000000 \<le> d * msPerDay \<and> d * msPerDay + 86399999 \<le> 8640000000000000 \<longrightarrow>
      buildWhereClause h None (Some (emptyFilters\<lparr>dateFrom := v, dateTo := v\<rparr>)) =
        AND [Date (Some (TimeValue (d * msPerDay))) (Some (TimeValue (d * msPerDay + 86399999)))] \<and>
      matches (buildWhereClause h None (Some (emptyFilters\<lparr>dateFrom := v, dateTo := v\<rparr>))) r =
        (date r div msPerDay = d))"
proof (intro conjI impI)
  show "filter isDateCondition (whereConditions h term (Some fs)) =
     (if truthy (dateFrom fs) \<or> truthy (dateTo fs) then
        [Date (if truthy (dateFrom fs) then Some (newDate h (dateFrom fs)) else None)
              (if truthy (dateTo fs)
               then Some (setHours_23_59_59_999 h (newDate h (dateTo fs))) else None)]
      else [])"
    by (rule dateConditions_present)
next
  assume "\<forall>t u. localTZA h t u = 0"
  then show "setHours_23_59_59_999 h (TimeValue t) = TimeClip ((t div msPerDay) * msPerDay + 86399999)"
    by (rule setHours_utc)
next
  assume a: "(\<forall>t u. localTZA h t u = 0) \<and> truthy v \<and> dateParse h (toString v) = Some (d * msPerDay) \<and>
    - 8640000000000000 \<le> d * msPerDay \<and> d * msPerDay + 86399999 \<le> 8640000000000000"
  then show b: "buildWhereClause h None (Some (emptyFilters\<lparr>dateFrom := v, dateTo := v\<rparr>)) =
        AND [Date (Some (TimeValue (d * msPerDay))) (Some (TimeValue (d * msPerDay + 86399999)))]"
    by (intro same_day_request) simp_all
  show "matches (buildWhereClause h None (Some (emptyFilters\<lparr>dateFrom := v, dateTo := v\<rparr>))) r =
        (date r div msPerDay = d)"
    by (simp add: b same_day_bounds)
qed

theorem date_range_condition_witness:
  "(\<forall>t u. localTZA (sampleHost 0) t u = 0) \<and> truthy (Some (QStr ''2024-01-01'')) \<and>
   dateParse (sampleHost 0) (toString (Some (QStr ''2024-01-01''))) = Some (19723 * msPerDay) \<and>
   buildWhereClause (sampleHost 0) None
       (Some (emptyFilters\<lparr>dateFrom := Some (QStr ''2024-01-01''), dateTo := Some (QStr ''2024-01-01'')\<rparr>)) =
     AND [Date (Some (TimeValue 1704067200000)) (Some (TimeValue 1704153599999))] \<and>
   matches (buildWhereClause (sampleHost 0) None
       (Some (emptyFilters\<lparr>dateFrom := Some (QStr ''2024-01-01''), dateTo := Some (QStr ''2024-01-01'')\<rparr>)))
     (sampleRecord\<lparr>date := 1704153599000\<rparr>) \<and>
   \<not> matches (buildWhereClause (sampleHost 0) None
       (Some (emptyFilters\<lparr>dateFrom := Some (QStr ''2024-01-01''), dateTo := Some (QStr ''2024-01-01'')\<rparr>)))
     (sampleRecord\<lparr>date := 1704153600000\<rparr>)"
proof -
  have utc: "\<forall>t u. localTZA (sampleHost 0) t u = 0" by (simp add: sampleHost_def)
  have v: "truthy (Some (QStr ''2024-01-01''))" by simp
  have p: "dateParse (sampleHost 0) (toString (Some (QStr ''2024-01-01''))) = Some (19723 * msPerDay)"
    by (simp add: sampleHost_def msPerDay_def)
  have r: "- 8640000000000000 \<le> 19723 * msPerDay \<and> 19723 * msPerDay + 86399999 \<le> 8640000000000000"
    by (simp add: msPerDay_def)
  have d1: "date (sampleRecord\<lparr>date := 1704153599000\<rparr>) div msPerDay = 19723"
    by (simp add: msPerDay_def)
  have d2: "date (sampleRecord\<lparr>date := 1704153600000\<rparr>) div msPerDay \<noteq> 19723"
    by (simp add: msPerDay_def)
  have m: "19723 * msPerDay = 1704067200000" "19723 * msPerDay + 86399999 = 1704153599999"
    by (simp_all add: msPerDay_def)
  from date_range_condition[of "sampleHost 0" None emptyFilters 0 "Some (QStr ''2024-01-01'')" 19723
      "sampleRecord\<lparr>date := 1704153599000\<rparr>"]
    date_range_condition[of "sampleHost 0" None emptyFilters 0 "Some (QStr ''2024-01-01'')" 19723
      "sampleRecord\<lparr>date := 1704153600000\<rparr>"]
    utc v p r d1 d2 m
  show ?thesis by simp
qed

theorem date_range_condition_counterexample:
  "1704088800000 div msPerDay = 19723 \<and>
   \<not> matches (buildWhereClause (sampleHost 0) None
       (Some (emptyFilters\<lparr>dateFrom := Some (QStr ''2024-01-01T12:00:00.000Z''),
                             dateTo := Some (QStr ''2024-01-01'')\<rparr>)))
     (sampleRecord\<lparr>date := 1704088800000\<rparr>) \<and>
   1704153599000 div msPerDay = 19723 \<and>
   \<not> matches (buildWhereClause (sampleHost 19800000) None
       (Some (emptyFilters\<lparr>dateFrom := Some (QStr ''2024-01-01''), dateTo := Some (QStr ''2024-01-01'')\<rparr>)))
     (sampleRecord\<lparr>date := 1704153599000\<rparr>) \<and>
   (1704047400000 + 19800000) div msPerDay = 19723 \<and>
   \<not> matches (buildWhereClause (sampleHost 19800000) None
       (Some (emptyFilters\<lparr>dateFrom := Some (QStr ''2024-01-01''), dateTo := Some (QStr ''2024-01-01'')\<rparr>)))
     (sampleRecord\<lparr>date := 1704047400000\<rparr>)"
  by code_simp

section \<open>Claims about the sales service\<close>

lemma length_orderRecords: "length (orderRecords ob rs) = length rs"
  by (simp add: orderRecords_def split: OrderBy.splits OrderField.splits SortOrder.splits)

lemma getSales_unfold:
  "getSales h db params =
     (if (requestedPage params - 1) * requestedPageSize params < 0 \<or> requestedPageSize params < 0
      then Inl (Failed ''Failed to fetch sales data'')
      else Inr \<lparr>data = map (mapRecord h)
                    (take (nat (requestedPageSize params))
                       (drop (nat ((requestedPage params - 1) * requestedPageSize params))
                          (orderRecords (buildOrderBy (sort params)) (matchingRecords h db params)))),
                SalesResponse.page = requestedPage params,
                SalesResponse.pageSize = requestedPageSize params,
                totalPages = Math_ceil (js_divide (int (length (matchingRecords h db params)))
                                               (requestedPageSize params)),
                totalRecords = int (length (matchingRecords h db params))\<rparr>)"
  by (simp add: getSales_def Let_def findMany_def count_def requestedPage_def
      requestedPageSize_def matchingRecords_def)

text \<open>
  C6. When the offset \<open>(page - 1) * pageSize\<close> is at least the number of records that
  match the compiled predicate (and the page size is not negative, as in every validated
  request), \<open>getSales\<close> returns a response, not an error; its record array is empty and its
  \<open>totalRecords\<close> is the number of matching records.
\<close>

theorem getSales_page_beyond_last:
  assumes "0 \<le> requestedPageSize params"
    and "int (length (matchingRecords h db params)) \<le>
           (requestedPage params - 1) * requestedPageSize params"
  shows "\<exists>r. getSales h db params = Inr r \<and> data r = [] \<and>
             totalRecords r = int (length (matchingRecords h db params))"
proof -
  have "0 \<le> (requestedPage params - 1) * requestedPageSize params"
    using assms(2) by linarith
  moreover have "length (orderRecords (buildOrderBy (sort params)) (matchingRecords h db params))
                  \<le> nat ((requestedPage params - 1) * requestedPageSize params)"
    using assms(2) by (simp add: length_orderRecords)
  ultimately show ?thesis
    using assms(1) by (simp add: getSales_unfold)
qed

theorem getSales_page_beyond_last_witness:
  "0 \<le> requestedPageSize (sampleRequest 3 2) \<and>
   int (length (matchingRecords (sampleHost 0) sampleData (sampleRequest 3 2))) \<le>
     (requestedPage (sampleRequest 3 2) - 1) * requestedPageSize (sampleRequest 3 2) \<and>
   (\<exists>r. getSales (sampleHost 0) sampleData (sampleRequest 3 2) = Inr r \<and> data r = [] \<and>
        totalRecords r = 3)"
proof -
  have a: "0 \<le> requestedPageSize (sampleRequest 3 2)" by code_simp
  have n: "int (length (matchingRecords (sampleHost 0) sampleData (sampleRequest 3 2))) = 3"
    by code_simp
  have b: "int (length (matchingRecords (sampleHost 0) sampleData (sampleRequest 3 2))) \<le>
     (requestedPage (sampleRequest 3 2) - 1) * requestedPageSize (sampleRequest 3 2)"
    by code_simp
  from getSales_page_beyond_last[OF a b] a b show ?thesis by (simp add: n)
qed

lemma ceiling_quotient_bounds:
  fixes a b :: int
  assumes "0 < b"
  shows "(\<lceil>(of_int a / of_int b :: rat)\<rceil> - 1) * b < a \<and> a \<le> \<lceil>(of_int a / of_int b :: rat)\<rceil> * b"
proof -
  let ?q = "of_int a / of_int b :: rat"
  have b: "(0::rat) < of_int b" using assms by simp
  have "of_int \<lceil>?q\<rceil> - 1 < ?q" by linarith
  then have "(of_int \<lceil>?q\<rceil> - 1) * of_int b < (of_int a :: rat)"
    using pos_less_divide_eq[OF b, of "of_int \<lceil>?q\<rceil> - 1" "of_int a"] by blast
  then have "(of_int ((\<lceil>?q\<rceil> - 1) * b) :: rat) < of_int a" by simp
  then have 1: "(\<lceil>?q\<rceil> - 1) * b < a" by (simp only: of_int_less_iff)
  have "?q \<le> of_int \<lceil>?q\<rceil>" by linarith
  then have "(of_int a :: rat) \<le> of_int \<lceil>?q\<rceil> * of_int b"
    using pos_divide_le_eq[OF b, of "of_int a" "of_int \<lceil>?q\<rceil>"] by blast
  then have "(of_int a :: rat) \<le> of_int (\<lceil>?q\<rceil> * b)" by simp
  then have 2: "a \<le> \<lceil>?q\<rceil> * b" by (simp only: of_int_le_iff)
  from 1 2 show ?thesis by blast
qed

lemma ceiling_quotient_real:
  fixes a b :: int
  shows "\<lceil>(of_int a / of_int b :: rat)\<rceil> = \<lceil>real_of_int a / real_of_int b\<rceil>"
  by (simp add: ceiling_divide_eq_div)

text \<open>
  C7. In every response of \<open>getSales\<close> with a page size of at least 1 (as in every
  validated request), \<open>totalPages\<close> is the ceiling of \<open>totalRecords / pageSize\<close>: the
  least number of pages of that size that hold all matching records. When no record matches it
  is 0.
\<close>

theorem getSales_totalPages:
  assumes "getSales h db params = Inr r" and "1 \<le> SalesResponse.pageSize r"
  shows "\<exists>n. totalPages r = Finite (of_int n) \<and>
             n = \<lceil>real_of_int (totalRecords r) / real_of_int (SalesResponse.pageSize r)\<rceil> \<and>
             (n - 1) * SalesResponse.pageSize r < totalRecords r \<and>
             totalRecords r \<le> n * SalesResponse.pageSize r \<and>
             (totalRecords r = 0 \<longrightarrow> n = 0) \<and>
             SalesResponse.pageSize r = requestedPageSize params \<and>
             totalRecords r = int (length (matchingRecords h db params))"
proof -
  let ?t = "int (length (matchingRecords h db params))"
  let ?s = "requestedPageSize params"
  from assms(1) have r: "SalesResponse.pageSize r = ?s" "totalRecords r = ?t"
    "totalPages r = Math_ceil (js_divide ?t ?s)"
    by (auto simp: getSales_unfold split: if_splits)
  have s: "0 < ?s" using assms(2) r(1) by simp
  let ?n = "\<lceil>(of_int ?t / of_int ?s :: rat)\<rceil>"
  have "totalPages r = Finite (of_int ?n)" using s by (simp add: r(3) js_divide_def)
  moreover have "?n = \<lceil>real_of_int ?t / real_of_int ?s\<rceil>" by (rule ceiling_quotient_real)
  moreover have "(?n - 1) * ?s < ?t \<and> ?t \<le> ?n * ?s" using s by (rule ceiling_quotient_bounds)
  moreover have "?t = 0 \<longrightarrow> ?n = 0" by simp
  ultimately show ?thesis using r(1,2) by simp
qed

theorem getSales_totalPages_witness:
  "getSales (sampleHost 0) sampleData (sampleRequest 2 2) =
     Inr \<lparr>data = [mapRecord (sampleHost 0) (sampleRecord\<lparr>id := ''t3'', Sales.gender := ''Male'', Sales.tags := [''b'', ''casual'', ''Z'']\<rparr>)], SalesResponse.page = 2,
          SalesResponse.pageSize = 2, totalPages = Finite 2, totalRecords = 3\<rparr> \<and>
   1 \<le> SalesResponse.pageSize
          \<lparr>data = [mapRecord (sampleHost 0) (sampleRecord\<lparr>id := ''t3'', Sales.gender := ''Male'', Sales.tags := [''b'', ''casual'', ''Z'']\<rparr>)], SalesResponse.page = 2,
           SalesResponse.pageSize = 2, totalPages = Finite 2, totalRecords = 3\<rparr> \<and>
   (\<exists>n. Finite 2 = Finite (of_int n) \<and> (n - 1) * 2 < (3::int) \<and> 3 \<le> n * 2)"
proof -
  let ?r = "\<lparr>data = [mapRecord (sampleHost 0) (sampleRecord\<lparr>id := ''t3'', Sales.gender := ''Male'', Sales.tags := [''b'', ''casual'', ''Z'']\<rparr>)], SalesResponse.page = 2,
          SalesResponse.pageSize = 2, totalPages = Finite 2, totalRecords = 3\<rparr>"
  have run: "getSales (sampleHost 0) sampleData (sampleRequest 2 2) = Inr ?r"
    by code_simp
  have ps: "1 \<le> SalesResponse.pageSize ?r" by simp
  from getSales_totalPages[OF run ps] obtain n where
    "totalPages ?r = Finite (of_int n)" "(n - 1) * SalesResponse.pageSize ?r < totalRecords ?r"
    "totalRecords ?r \<le> n * SalesResponse.pageSize ?r"
    by blast
  then have "Finite 2 = Finite (of_int n) \<and> (n - 1) * 2 < (3::int) \<and> 3 \<le> n * 2"
    by simp
  then have "\<exists>n. Finite 2 = Finite (of_int n) \<and> (n - 1) * 2 < (3::int) \<and> 3 \<le> n * 2" ..
  with run ps show ?thesis by blast
qed

text \<open>
  C8. \<open>buildOrderBy\<close> maps every sort token to the pair that the table of the
  specification gives it, and an absent, empty or unknown token to the transaction date,
  descending.
\<close>

theorem buildOrderBy_table: "buildOrderBy token = resolveSort token"
  by (cases token) (simp_all add: buildOrderBy_def resolveSort_def sortTable_def)

lemma arrayFromSet_acc:
  "set (foldl setAdd acc xs) = set acc \<union> set xs \<and> (distinct acc \<longrightarrow> distinct (foldl setAdd acc xs))"
  by (induction xs arbitrary: acc) (auto simp: setAdd_def)

lemma distinctValues_props:
  "set (distinctValues xs) = {x \<in> set xs. x \<noteq> []} \<and> sorted (distinctValues xs) \<and>
   distinct (distinctValues xs)"
  using arrayFromSet_acc[of "[]" "filter (\<lambda>s. s \<noteq> []) xs"]
  by (auto simp: distinctValues_def arrayFromSet_def sorted_sort_key[of "\<lambda>s. s", simplified])

lemma distinctValues_isCatalog: "isCatalog xs (distinctValues xs)"
  using distinctValues_props[of xs] by (simp add: isCatalog_def)

text \<open>
  C9, in the form that holds of the code. For every collection, \<open>getFilterOptions\<close> returns for each
  set-membership field the catalog of its stored values: exactly the distinct values that are
  not the empty string, in ascending code-unit order and without duplicates; for the tags, the
  tag lists of all records are concatenated first.
\<close>

theorem getFilterOptions_catalog:
  "\<exists>opts. getFilterOptions db = Inr opts \<and>
     isCatalog (map Sales.customerRegion db) (customerRegions opts) \<and>
     isCatalog (map Sales.gender db) (genders opts) \<and>
     isCatalog (map Sales.productCategory db) (productCategories opts) \<and>
     isCatalog (map Sales.paymentMethod db) (paymentMethods opts) \<and>
     isCatalog (map Sales.orderStatus db) (orderStatuses opts) \<and>
     isCatalog (map Sales.deliveryType db) (deliveryTypes opts) \<and>
     isCatalog (map Sales.brand db) (brands opts) \<and>
     isCatalog (concat (map Sales.tags db)) (FilterOptions.tags opts)"
  by (simp add: getFilterOptions_def distinctValues_isCatalog)

theorem getFilterOptions_catalog_counterexample:
  "getFilterOptions sampleData =
     Inr \<lparr>customerRegions = [''East''], genders = [''Female'', ''Male''],
          productCategories = [''Clothing''], paymentMethods = [''UPI''],
          orderStatuses = [''Completed''], deliveryTypes = [''Standard''],
          brands = [''Acme''], FilterOptions.tags = [''Z'', ''b'', ''casual'', ''cotton'']\<rparr> \<and>
   map Sales.brand sampleData = [''Acme'', '''', ''Acme'']"
  by code_simp

end
